theory Spec2Isabelle
  imports
    Complex_Main
    "HOL-Library.AList"
    "HOL-Library.Multiset"
    "HOL-Library.Product_Lexorder"
begin

section \<open>Data model\<close>

text \<open>
  The notebook \<^verbatim>\<open>archive/svm_nimda_1min.ipynb\<close> works on one table \<^verbatim>\<open>df\<close>. After the
  cell that drops the non-feature columns, \<^verbatim>\<open>X = df.drop('class', axis=1)\<close> holds the
  feature columns and \<^verbatim>\<open>y = df['class']\<close> the labels. A column is a name with its
  values; a cell value is a finite float64 number, as the data model promises after
  \<^verbatim>\<open>fillna(0)\<close>.
\<close>

type_synonym column = "string \<times> real list"

record dataset =
  X_columns :: "column list"
  y_labels :: "int list"

datatype py_error = KeyError | ValueError | IndexError | NameError | FileNotFoundError

text \<open>
  A data frame has one value per row in every column, and \<^verbatim>\<open>read_csv\<close> hands out
  distinct column names; \<^verbatim>\<open>X\<close> has lost the column \<^verbatim>\<open>class\<close>.
\<close>

definition wf_dataset :: "dataset \<Rightarrow> bool" where
  "wf_dataset d \<longleftrightarrow>
     distinct (map fst (X_columns d)) \<and>
     ''class'' \<notin> set (map fst (X_columns d)) \<and>
     list_all (\<lambda>c. length (snd c) = length (y_labels d)) (X_columns d)"

section \<open>Float64 arithmetic\<close>

text \<open>
  The feature analysis computes with float64 values: a finite number, the two
  infinities, or NaN. An operation on finite numbers rounds the exact result to the
  nearest float64, ties to even, with gradual underflow; a result of magnitude
  \<open>2 ^ 1024 - 2 ^ 970\<close> or more overflows to an infinity, and nothing raises. The two
  zeros are not told apart: their sign shows only when a number is divided by zero,
  which the guard of the analysis excludes.
\<close>

datatype fval = Num real | PosInf | NegInf | NaN

fun is_finite :: "fval \<Rightarrow> bool" where
  "is_finite (Num r) = True"
| "is_finite PosInf = False"
| "is_finite NegInf = False"
| "is_finite NaN = False"

function bit_length :: "int \<Rightarrow> int" where
  "bit_length n = (if n \<le> 0 then 0 else 1 + bit_length (n div 2))"
  by pat_completeness auto
termination
  by (relation "measure nat") auto

declare bit_length.simps [simp del]

text \<open>The exponent \<open>e\<close> with \<open>2 ^ e \<le> x < 2 ^ (e + 1)\<close>, for a positive \<open>x\<close>.\<close>

definition binary_exponent :: "real \<Rightarrow> int" where
  "binary_exponent x =
     (if 1 \<le> x then bit_length \<lfloor>x\<rfloor> - 1 else - bit_length (\<lceil>1 / x\<rceil> - 1))"

definition pow2 :: "int \<Rightarrow> real" where
  "pow2 e = (if 0 \<le> e then 2 ^ nat e else 1 / 2 ^ nat (- e))"

definition round_half_even :: "real \<Rightarrow> int" where
  "round_half_even x =
     (let f = \<lfloor>x\<rfloor>; d = x - of_int f
      in if d < 1 / 2 then f else if 1 / 2 < d then f + 1 else if even f then f else f + 1)"

text \<open>Rounding to 53 significant bits, the exponent not below that of the subnormal numbers.\<close>

definition round_to_double :: "real \<Rightarrow> real" where
  "round_to_double x =
     (if x = 0 then 0
      else let q = pow2 (max (binary_exponent \<bar>x\<bar>) (- 1022) - 52)
           in of_int (round_half_even (x / q)) * q)"

definition overflow_threshold :: real where
  "overflow_threshold = 2 ^ 1024 - 2 ^ 970"

definition in_range :: "real \<Rightarrow> bool" where
  "in_range x \<longleftrightarrow> \<bar>x\<bar> < overflow_threshold"

definition round64 :: "real \<Rightarrow> fval" where
  "round64 x =
     (if in_range x then Num (round_to_double x) else if 0 < x then PosInf else NegInf)"

fun fadd :: "fval \<Rightarrow> fval \<Rightarrow> fval" where
  "fadd (Num a) (Num b) = round64 (a + b)"
| "fadd NaN _ = NaN"
| "fadd _ NaN = NaN"
| "fadd PosInf NegInf = NaN"
| "fadd NegInf PosInf = NaN"
| "fadd PosInf _ = PosInf"
| "fadd NegInf _ = NegInf"
| "fadd _ PosInf = PosInf"
| "fadd _ NegInf = NegInf"

fun fsub :: "fval \<Rightarrow> fval \<Rightarrow> fval" where
  "fsub (Num a) (Num b) = round64 (a - b)"
| "fsub NaN _ = NaN"
| "fsub _ NaN = NaN"
| "fsub PosInf PosInf = NaN"
| "fsub NegInf NegInf = NaN"
| "fsub PosInf _ = PosInf"
| "fsub NegInf _ = NegInf"
| "fsub _ PosInf = NegInf"
| "fsub _ NegInf = PosInf"

fun fdiv :: "fval \<Rightarrow> fval \<Rightarrow> fval" where
  "fdiv (Num a) (Num b) =
     (if b = 0 then (if a = 0 then NaN else if 0 < a then PosInf else NegInf)
      else round64 (a / b))"
| "fdiv NaN _ = NaN"
| "fdiv _ NaN = NaN"
| "fdiv (Num a) _ = Num 0"
| "fdiv PosInf (Num b) = (if b < 0 then NegInf else PosInf)"
| "fdiv NegInf (Num b) = (if b < 0 then PosInf else NegInf)"
| "fdiv _ _ = NaN"

fun abs_fval :: "fval \<Rightarrow> fval" where
  "abs_fval (Num r) = Num \<bar>r\<bar>"
| "abs_fval PosInf = PosInf"
| "abs_fval NegInf = PosInf"
| "abs_fval NaN = NaN"

text \<open>The order of float values as a linear order: NaN lowest, plus infinity on top.\<close>

fun float_rank :: "fval \<Rightarrow> nat \<times> real" where
  "float_rank NaN = (0, 0)"
| "float_rank NegInf = (1, 0)"
| "float_rank (Num r) = (2, r)"
| "float_rank PosInf = (3, 0)"

section \<open>Library calls\<close>

text \<open>
  The notebook delegates the numerical work to scikit-learn, SHAP, LIME, joblib, numpy
  and pandas. Their routines are parameters of the model: a record of functions, one
  per call the notebook makes. A call that can raise returns a sum.
\<close>

type_synonym matrix = "real list list"

type_synonym bytes = "char list"

datatype gamma = Scale | Auto | Gamma real

datatype kernel = Rbf | Linear | Poly

record params =
  svm_C :: real
  svm_gamma :: gamma
  svm_kernel :: kernel

datatype step = StandardScaler | SVC bool

datatype scoring = F1

record 'm library =
  series_sum :: "real list \<Rightarrow> fval"
  tie_order :: "fval list \<Rightarrow> nat list"
  split_indices :: "matrix \<Rightarrow> real \<Rightarrow> nat \<Rightarrow> int list \<Rightarrow> py_error + (nat list \<times> nat list)"
  fold_score :: "(string \<times> step) list \<Rightarrow> scoring \<Rightarrow> params \<Rightarrow> nat \<Rightarrow> nat \<Rightarrow> matrix \<Rightarrow> int list \<Rightarrow> real"
  refit :: "(string \<times> step) list \<Rightarrow> params \<Rightarrow> matrix \<Rightarrow> int list \<Rightarrow> py_error + 'm"
  predict :: "'m \<Rightarrow> matrix \<Rightarrow> int list"
  scale_pca :: "matrix \<Rightarrow> py_error + matrix"
  shap_analysis :: "matrix \<Rightarrow> int list \<Rightarrow> matrix \<Rightarrow> string list \<Rightarrow> py_error + unit"
  lime_explainer :: "matrix \<Rightarrow> string list \<Rightarrow> py_error + unit"
  lime_explain_instance :: "'m \<Rightarrow> real list \<Rightarrow> py_error + unit"
  joblib_dumps :: "'m \<Rightarrow> bytes"
  joblib_loads :: "bytes \<Rightarrow> py_error + 'm"
  to_csv :: "string list \<Rightarrow> bytes"
  read_csv_cells :: "bytes \<Rightarrow> py_error + string list"
  as_number :: "string \<Rightarrow> real option"
  as_bool :: "string \<Rightarrow> bool option"

text \<open>
  \<open>series_sum\<close> is the float64 sum of a series, in whatever order the library adds;
  \<open>tie_order keys\<close> is the order in which the default, unstable sort kind visits the
  positions of the keys, which decides the order of rows with equal keys and nothing
  else; \<open>read_csv_cells\<close> is the text of the fields of the column \<^verbatim>\<open>Feature\<close> of a
  CSV file, before any conversion; \<open>as_number\<close> and \<open>as_bool\<close> are the reader's
  recognisers of numbers and of truth values.
  \<open>split_indices X test_size random_state stratify\<close> is the choice of row positions
  inside \<^verbatim>\<open>train_test_split\<close>; \<open>fold_score pipeline scoring p cv k X y\<close> is the score of
  candidate \<open>p\<close> on fold \<open>k\<close> of \<open>cv\<close>; \<open>refit\<close> fits the pipeline with the chosen
  parameters on all the rows it is given; \<open>scale_pca\<close> is
  \<^verbatim>\<open>StandardScaler().fit_transform\<close> followed by \<^verbatim>\<open>PCA(n_components=2).fit_transform\<close>.
\<close>

definition take_rows :: "'a list \<Rightarrow> nat list \<Rightarrow> py_error + 'a list" where
  "take_rows xs idx =
     (if list_all (\<lambda>i. i < length xs) idx then Inr (map (\<lambda>i. xs ! i) idx) else Inl IndexError)"

record split_result =
  train_rows :: matrix
  test_rows :: matrix
  train_labels :: "int list"
  test_labels :: "int list"
  train_positions :: "nat list"
  test_positions :: "nat list"

text \<open>
  \<^verbatim>\<open>train_test_split(X, y, test_size=..., random_state=..., stratify=...)\<close>: the arrays
  must have the same number of rows; one choice of positions indexes both.
\<close>

definition train_test_split ::
  "'m library \<Rightarrow> matrix \<Rightarrow> int list \<Rightarrow> real \<Rightarrow> nat \<Rightarrow> int list \<Rightarrow> py_error + split_result" where
  "train_test_split lib X y test_size random_state stratify =
     (if length X \<noteq> length y then Inl ValueError
      else case split_indices lib X test_size random_state stratify of
        Inl e \<Rightarrow> Inl e
      | Inr (train, test) \<Rightarrow>
          (case (take_rows X train, take_rows X test, take_rows y train, take_rows y test) of
             (Inr Xtr, Inr Xte, Inr ytr, Inr yte) \<Rightarrow>
               Inr \<lparr>train_rows = Xtr, test_rows = Xte, train_labels = ytr, test_labels = yte,
                    train_positions = train, test_positions = test\<rparr>
           | _ \<Rightarrow> Inl IndexError))"

text \<open>
  \<^verbatim>\<open>ParameterGrid\<close>: the keys in sorted order (\<^verbatim>\<open>svm__C\<close>, \<^verbatim>\<open>svm__gamma\<close>,
  \<^verbatim>\<open>svm__kernel\<close>), the last one varying fastest.
\<close>

definition parameter_grid :: "real list \<Rightarrow> gamma list \<Rightarrow> kernel list \<Rightarrow> params list" where
  "parameter_grid cs gs ks =
     concat (map (\<lambda>c. concat (map (\<lambda>g. map (\<lambda>k. \<lparr>svm_C = c, svm_gamma = g, svm_kernel = k\<rparr>) ks) gs)) cs)"

text \<open>The mean of the fold scores of a candidate.\<close>

definition average :: "real list \<Rightarrow> real" where
  "average vs = sum_list vs / real (length vs)"

definition mean_test_score ::
  "'m library \<Rightarrow> (string \<times> step) list \<Rightarrow> scoring \<Rightarrow> nat \<Rightarrow> matrix \<Rightarrow> int list \<Rightarrow> params \<Rightarrow> real" where
  "mean_test_score lib pipe sc cv X y p =
     average (map (\<lambda>k. fold_score lib pipe sc p cv k X y) [0..<cv])"

text \<open>The candidate of rank 1: the first one whose mean score no other exceeds.\<close>

definition best_candidate :: "('a \<times> real) \<Rightarrow> ('a \<times> real) list \<Rightarrow> 'a \<times> real" where
  "best_candidate c cs = foldl (\<lambda>best x. if snd best < snd x then x else best) c cs"

text \<open>\<^verbatim>\<open>GridSearchCV(pipeline, param_grid, cv=..., scoring=...).fit(X, y)\<close>\<close>

definition grid_search_fit ::
  "'m library \<Rightarrow> (string \<times> step) list \<Rightarrow> params list \<Rightarrow> nat \<Rightarrow> scoring \<Rightarrow> matrix \<Rightarrow> int list
     \<Rightarrow> py_error + (params \<times> 'm)" where
  "grid_search_fit lib pipe grid cv sc X y =
     (case map (\<lambda>p. (p, mean_test_score lib pipe sc cv X y p)) grid of
        [] \<Rightarrow> Inl ValueError
      | c # cs \<Rightarrow>
          (let best = fst (best_candidate c cs)
           in case refit lib pipe best X y of
                Inl e \<Rightarrow> Inl e
              | Inr m \<Rightarrow> Inr (best, m)))"

text \<open>
  \<^verbatim>\<open>precision_recall_fscore_support(y_true, y_pred, average='binary')\<close> with the
  defaults \<^verbatim>\<open>pos_label=1\<close> and \<^verbatim>\<open>zero_division='warn'\<close>, on non-empty label vectors:
  a ratio with denominator zero is set to 0.0 and an \<^verbatim>\<open>UndefinedMetricWarning\<close> is issued.
\<close>

definition count_where :: "('a \<Rightarrow> bool) \<Rightarrow> 'a list \<Rightarrow> nat" where
  "count_where P xs = length (filter P xs)"

definition prf_divide :: "nat \<Rightarrow> nat \<Rightarrow> string \<Rightarrow> real \<times> string list" where
  "prf_divide numerator denominator metric =
     (if denominator = 0
      then (0, [''UndefinedMetricWarning: '' @ metric @ '' is ill-defined and being set to 0.0''])
      else (real numerator / real denominator, []))"

definition precision_recall_fscore_support ::
  "int list \<Rightarrow> int list \<Rightarrow> py_error + (fval \<times> fval \<times> fval \<times> string list)" where
  "precision_recall_fscore_support y_true y_pred =
     (if length y_true \<noteq> length y_pred then Inl ValueError
      else let present_labels = remdups (y_true @ y_pred) in
        if length present_labels > 2 then Inl ValueError
        else if 1 \<notin> set present_labels \<and> length present_labels \<ge> 2 then Inl ValueError
        else
          let tp_sum = count_where (\<lambda>p. fst p = 1 \<and> snd p = 1) (zip y_true y_pred);
              pred_sum = count_where (\<lambda>l. l = 1) y_pred;
              true_sum = count_where (\<lambda>l. l = 1) y_true;
              p = prf_divide tp_sum pred_sum ''Precision'';
              r = prf_divide tp_sum true_sum ''Recall'';
              f = (if fst p + fst r = 0 then 0 else 2 * fst p * fst r / (fst p + fst r));
              wf = (if pred_sum + true_sum = 0
                    then [''UndefinedMetricWarning: F-score is ill-defined and being set to 0.0'']
                    else [])
          in Inr (Num (fst p), Num (fst r), Num f, snd p @ snd r @ wf))"

section \<open>Feature analysis and selection\<close>

text \<open>
  \<^verbatim>\<open>anomaly = df[df['class'] == 1]\<close> and \<^verbatim>\<open>normal = df[df['class'] == 0]\<close>: the values
  of one column on the rows whose label is \<open>c\<close>.
\<close>

definition rows_where :: "int \<Rightarrow> int list \<Rightarrow> real list \<Rightarrow> real list" where
  "rows_where c ys vs = map snd (filter (\<lambda>p. fst p = c) (zip ys vs))"

text \<open>
  \<^verbatim>\<open>Series.mean()\<close>: NaN on an empty series, otherwise the float64 sum divided by the
  count.
\<close>

definition mean :: "'m library \<Rightarrow> real list \<Rightarrow> fval" where
  "mean lib vs = (if vs = [] then NaN else fdiv (series_sum lib vs) (Num (real (length vs))))"

text \<open>\<^verbatim>\<open>anomaly[col].mean() if not anomaly.empty else 0\<close>\<close>

definition anomaly_mean_of :: "'m library \<Rightarrow> int list \<Rightarrow> real list \<Rightarrow> fval" where
  "anomaly_mean_of lib ys vs =
     (if filter (\<lambda>l. l = 1) ys \<noteq> [] then mean lib (rows_where 1 ys vs) else Num 0)"

text \<open>
  The guarded division of the loop body. A mean that is NaN or infinite is not equal
  to 0, so it takes the branch its comparison selects, and the float64 operations do
  the rest.
\<close>

definition feature_diff :: "fval \<Rightarrow> fval \<Rightarrow> fval" where
  "feature_diff normal_mean anomaly_mean =
     (if normal_mean = Num 0 then
        (if anomaly_mean = Num 0 then Num 0 else PosInf)
      else fdiv (fsub anomaly_mean normal_mean) normal_mean)"

definition column_diff :: "'m library \<Rightarrow> int list \<Rightarrow> real list \<Rightarrow> fval" where
  "column_diff lib ys vs =
     feature_diff (mean lib (rows_where 0 ys vs)) (anomaly_mean_of lib ys vs)"

text \<open>
  The loop \<^verbatim>\<open>for col in X.columns: if col != 'class': ... feature_diffs[col] = diff\<close>.
  The dictionary keeps insertion order; assigning to a key that is present keeps its place.
\<close>

definition feature_diffs_of :: "'m library \<Rightarrow> dataset \<Rightarrow> (string \<times> fval) list" where
  "feature_diffs_of lib d =
     foldl (\<lambda>acc c. if fst c \<noteq> ''class''
                     then AList.update (fst c) (column_diff lib (y_labels d) (snd c)) acc
                     else acc)
       [] (X_columns d)"

text \<open>
  \<^verbatim>\<open>sort_values('Relative Change', key=abs, ascending=False)\<close>. The key function is
  \<^verbatim>\<open>abs\<close>; pandas sorts the rows whose key is not NaN in descending order and puts the
  NaN rows last, in their original order. The default sort kind is not stable: the
  rows are first taken in the order the library visits them (the given order when the
  library's answer is not a rearrangement of the positions), then put in order of
  their keys.
\<close>

definition abs_rank :: "string \<times> fval \<Rightarrow> nat \<times> real" where
  "abs_rank row = float_rank (abs_fval (snd row))"

definition arrange :: "nat list \<Rightarrow> 'a list \<Rightarrow> 'a list" where
  "arrange p xs = (if sort p = [0..<length xs] then map (\<lambda>i. xs ! i) p else xs)"

definition sort_values_abs_desc ::
  "'m library \<Rightarrow> (string \<times> fval) list \<Rightarrow> (string \<times> fval) list" where
  "sort_values_abs_desc lib rows =
     (let non_nans = filter (\<lambda>row. abs_fval (snd row) \<noteq> NaN) rows;
          nans = filter (\<lambda>row. abs_fval (snd row) = NaN) rows;
          visited = arrange (tie_order lib (map (\<lambda>row. abs_fval (snd row)) non_nans)) non_nans
      in rev (sort_key abs_rank (rev visited)) @ nans)"

definition feature_diff_df_of :: "'m library \<Rightarrow> dataset \<Rightarrow> (string \<times> fval) list" where
  "feature_diff_df_of lib d = sort_values_abs_desc lib (feature_diffs_of lib d)"

text \<open>\<^verbatim>\<open>DataFrame.head(n)\<close> for a count \<open>n\<close>: the first \<open>n\<close> rows, all of them when there are fewer.\<close>

definition head_rows :: "nat \<Rightarrow> 'a list \<Rightarrow> 'a list" where
  "head_rows n rows = take n rows"

text \<open>\<^verbatim>\<open>top_features = feature_diff_df.head(15)['Feature'].tolist()\<close>\<close>

definition top_features_of :: "'m library \<Rightarrow> dataset \<Rightarrow> string list" where
  "top_features_of lib d = map fst (head_rows 15 (feature_diff_df_of lib d))"

text \<open>\<^verbatim>\<open>X[top_features]\<close>: the named columns in the order of the list; a missing name raises.\<close>

fun select_columns :: "column list \<Rightarrow> string list \<Rightarrow> py_error + column list" where
  "select_columns cols [] = Inr []"
| "select_columns cols (n # ns) =
     (case map_of cols n of
        None \<Rightarrow> Inl KeyError
      | Some vs \<Rightarrow>
          (case select_columns cols ns of
             Inl e \<Rightarrow> Inl e
           | Inr rest \<Rightarrow> Inr ((n, vs) # rest)))"

definition X_selected_of :: "'m library \<Rightarrow> dataset \<Rightarrow> py_error + column list" where
  "X_selected_of lib d = select_columns (X_columns d) (top_features_of lib d)"

section \<open>Reading the feature list back\<close>

text \<open>
  \<^verbatim>\<open>pd.read_csv(...)['Feature'].tolist()\<close> converts the text of the fields. A field
  that is one of the default missing-value strings becomes NaN. If every other field
  is recognised as a number the column is numeric; else, if every other field is a
  truth value, they become booleans; else the fields stay text. So an element of the
  list is text, a number, a boolean, or NaN.
\<close>

datatype csv_value = Text string | Number real | Boolean bool | Missing

definition na_values :: "string list" where
  "na_values =
     ['''', ''#N/A'', ''#N/A N/A'', ''#NA'', ''-1.#IND'', ''-1.#QNAN'', ''-NaN'', ''-nan'',
      ''1.#IND'', ''1.#QNAN'', ''<NA>'', ''N/A'', ''NA'', ''NULL'', ''NaN'', ''None'', ''n/a'',
      ''nan'', ''null'']"

definition infer_column :: "'m library \<Rightarrow> string list \<Rightarrow> csv_value list" where
  "infer_column lib cells =
     (let present = filter (\<lambda>c. c \<notin> set na_values) cells
      in if present \<noteq> [] \<and> list_all (\<lambda>c. as_number lib c \<noteq> None) present then
           map (\<lambda>c. if c \<in> set na_values then Missing
                    else case as_number lib c of Some r \<Rightarrow> Number r | None \<Rightarrow> Missing) cells
         else if present \<noteq> [] \<and> list_all (\<lambda>c. as_bool lib c \<noteq> None) present then
           map (\<lambda>c. if c \<in> set na_values then Missing
                    else case as_bool lib c of Some b \<Rightarrow> Boolean b | None \<Rightarrow> Missing) cells
         else map (\<lambda>c. if c \<in> set na_values then Missing else Text c) cells)"

definition read_csv_Feature :: "'m library \<Rightarrow> bytes \<Rightarrow> py_error + csv_value list" where
  "read_csv_Feature lib b =
     (case read_csv_cells lib b of
        Inl e \<Rightarrow> Inl e
      | Inr cells \<Rightarrow> Inr (infer_column lib cells))"


section \<open>The notebook as a sequence of cells\<close>

text \<open>
  The cells share global variables; the state is a record with one field per variable,
  the text printed so far, the warnings shown so far, the figures drawn and the files on
  disk. A cell maps a state to the next one, or raises. The table \<^verbatim>\<open>df\<close> is the one the
  loading cells leave behind. Of the printed text the state keeps the messages of the
  import cell, of the two explainer cells and of the persistence cells; the reports of
  sizes, parameters and metrics and the plots of the evaluation are left out.
\<close>

record 'm notebook =
  df :: dataset
  EXPLAINABILITY_AVAILABLE :: bool
  warnings_ignored :: bool
  stdout :: "string list"
  stderr :: "string list"
  plots :: "string list"
  files :: "string \<rightharpoonup> bytes"
  feature_diff_df :: "(string \<times> fval) list"
  top_features :: "string list"
  X_selected :: "column list"
  X_train :: matrix
  X_test :: matrix
  y_train :: "int list"
  y_test :: "int list"
  train_index :: "nat list"
  test_index :: "nat list"
  best_params :: "params option"
  best_model :: "'m option"
  y_pred :: "int list"
  precision :: fval
  recall :: fval
  f1 :: fval
  X_pca :: matrix
  X_train_pca :: matrix
  X_test_pca :: matrix
  y_train_pca :: "int list"
  y_test_pca :: "int list"
  train_index_pca :: "nat list"
  test_index_pca :: "nat list"
  loaded_model :: "'m option"
  selected_features :: "csv_value list"

record env =
  shap_installed :: bool
  lime_installed :: bool

definition emit :: "string \<Rightarrow> 'm notebook \<Rightarrow> 'm notebook" where
  "emit line s = s\<lparr>stdout := stdout s @ [line]\<rparr>"

text \<open>A warning reaches the output only when the filter has not been set to \<^verbatim>\<open>'ignore'\<close>.\<close>

definition warn :: "'m notebook \<Rightarrow> string \<Rightarrow> 'm notebook" where
  "warn s w = (if warnings_ignored s then s else s\<lparr>stderr := stderr s @ [w]\<rparr>)"

fun run_cells :: "('s \<Rightarrow> py_error + 's) list \<Rightarrow> 's \<Rightarrow> py_error + 's" where
  "run_cells [] s = Inr s"
| "run_cells (cell # cells) s =
     (case cell s of Inl e \<Rightarrow> Inl e | Inr s' \<Rightarrow> run_cells cells s')"

text \<open>
  The import cell: \<^verbatim>\<open>try: import shap; import lime; import lime.lime_tabular\<close> with
  \<^verbatim>\<open>except ImportError\<close>, then \<^verbatim>\<open>warnings.filterwarnings('ignore')\<close>.
\<close>

definition imports_cell :: "env \<Rightarrow> 'm notebook \<Rightarrow> py_error + 'm notebook" where
  "imports_cell e s =
     (let s1 =
        (if shap_installed e \<and> lime_installed e
         then s\<lparr>EXPLAINABILITY_AVAILABLE := True\<rparr>
         else emit ''Run 'pip install shap lime' to install them.''
               (emit ''Warning: SHAP and/or LIME libraries not installed. Explainability sections will be skipped.''
                 (s\<lparr>EXPLAINABILITY_AVAILABLE := False\<rparr>)))
      in Inr (s1\<lparr>warnings_ignored := True\<rparr>))"

definition feature_analysis_cell :: "'m library \<Rightarrow> 'm notebook \<Rightarrow> py_error + 'm notebook" where
  "feature_analysis_cell lib s = Inr (s\<lparr>feature_diff_df := feature_diff_df_of lib (df s)\<rparr>)"

definition select_cell :: "'m notebook \<Rightarrow> py_error + 'm notebook" where
  "select_cell s =
     (let top = map fst (head_rows 15 (feature_diff_df s))
      in case select_columns (X_columns (df s)) top of
           Inl e \<Rightarrow> Inl e
         | Inr cols \<Rightarrow> Inr (s\<lparr>top_features := top, X_selected := cols\<rparr>))"

text \<open>The rows of a data frame of \<open>n\<close> rows, as the library calls receive them.\<close>

definition rows_of :: "column list \<Rightarrow> nat \<Rightarrow> matrix" where
  "rows_of cols n = map (\<lambda>i. map (\<lambda>c. snd c ! i) cols) [0..<n]"

text \<open>
  \<^verbatim>\<open>train_test_split(X_selected, y, test_size=0.3, random_state=42, stratify=y)\<close>
\<close>

definition split_cell :: "'m library \<Rightarrow> 'm notebook \<Rightarrow> py_error + 'm notebook" where
  "split_cell lib s =
     (let y = y_labels (df s)
      in case train_test_split lib (rows_of (X_selected s) (length y)) y (3 / 10) 42 y of
           Inl e \<Rightarrow> Inl e
         | Inr r \<Rightarrow>
             Inr (s\<lparr>X_train := train_rows r, X_test := test_rows r,
                    y_train := train_labels r, y_test := test_labels r,
                    train_index := train_positions r, test_index := test_positions r\<rparr>))"

definition pipeline :: "(string \<times> step) list" where
  "pipeline = [(''scaler'', StandardScaler), (''svm'', SVC True)]"

definition param_grid :: "params list" where
  "param_grid =
     parameter_grid [1 / 10, 1, 10, 100] [Scale, Auto, Gamma (1 / 10), Gamma (1 / 100)]
       [Rbf, Linear, Poly]"

text \<open>
  \<^verbatim>\<open>grid_search = GridSearchCV(pipeline, param_grid, cv=5, scoring='f1', verbose=1)\<close>,
  \<^verbatim>\<open>grid_search.fit(X_train, y_train)\<close> and \<^verbatim>\<open>best_model = grid_search.best_estimator_\<close>.
\<close>

definition grid_search_cell :: "'m library \<Rightarrow> 'm notebook \<Rightarrow> py_error + 'm notebook" where
  "grid_search_cell lib s =
     (case grid_search_fit lib pipeline param_grid 5 F1 (X_train s) (y_train s) of
        Inl e \<Rightarrow> Inl e
      | Inr (p, m) \<Rightarrow> Inr (s\<lparr>best_params := Some p, best_model := Some m\<rparr>))"

definition predict_cell :: "'m library \<Rightarrow> 'm notebook \<Rightarrow> py_error + 'm notebook" where
  "predict_cell lib s =
     (case best_model s of
        None \<Rightarrow> Inl NameError
      | Some m \<Rightarrow> Inr (s\<lparr>y_pred := predict lib m (X_test s)\<rparr>))"

definition metrics_cell :: "'m notebook \<Rightarrow> py_error + 'm notebook" where
  "metrics_cell s =
     (case precision_recall_fscore_support (y_test s) (y_pred s) of
        Inl e \<Rightarrow> Inl e
      | Inr (p, r, f, ws) \<Rightarrow> Inr (foldl warn (s\<lparr>precision := p, recall := r, f1 := f\<rparr>) ws))"

text \<open>
  The projection cell; \<^verbatim>\<open>pca_df['class'] = y.values\<close> raises when the projection has
  another number of rows than \<^verbatim>\<open>y\<close>.
\<close>

definition pca_cell :: "'m library \<Rightarrow> 'm notebook \<Rightarrow> py_error + 'm notebook" where
  "pca_cell lib s =
     (let y = y_labels (df s)
      in case scale_pca lib (rows_of (X_selected s) (length y)) of
           Inl e \<Rightarrow> Inl e
         | Inr P \<Rightarrow> if length P \<noteq> length y then Inl ValueError else Inr (s\<lparr>X_pca := P\<rparr>))"

text \<open>\<^verbatim>\<open>train_test_split(X_pca, y, test_size=0.3, random_state=42, stratify=y)\<close>\<close>

definition pca_split_cell :: "'m library \<Rightarrow> 'm notebook \<Rightarrow> py_error + 'm notebook" where
  "pca_split_cell lib s =
     (let y = y_labels (df s)
      in case train_test_split lib (X_pca s) y (3 / 10) 42 y of
           Inl e \<Rightarrow> Inl e
         | Inr r \<Rightarrow>
             Inr (s\<lparr>X_train_pca := train_rows r, X_test_pca := test_rows r,
                    y_train_pca := train_labels r, y_test_pca := test_labels r,
                    train_index_pca := train_positions r, test_index_pca := test_positions r\<rparr>))"

definition shap_cell :: "'m library \<Rightarrow> 'm notebook \<Rightarrow> py_error + 'm notebook" where
  "shap_cell lib s =
     (if EXPLAINABILITY_AVAILABLE s then
        (case shap_analysis lib (X_train s) (y_train s) (X_test s) (map fst (X_selected s)) of
           Inl e \<Rightarrow> Inl e
         | Inr _ \<Rightarrow> Inr (s\<lparr>plots := plots s @ [''shap.summary_plot'', ''shap.dependence_plot'']\<rparr>))
      else Inr (emit ''SHAP analysis skipped because libraries are not installed.'' s))"

definition lime_cell :: "'m library \<Rightarrow> 'm notebook \<Rightarrow> py_error + 'm notebook" where
  "lime_cell lib s =
     (if EXPLAINABILITY_AVAILABLE s then
        (case lime_explainer lib (X_train s) (map fst (X_selected s)) of
           Inl e \<Rightarrow> Inl e
         | Inr _ \<Rightarrow>
             (case filter (\<lambda>i. y_test s ! i = 1) [0..<length (y_test s)] of
                [] \<Rightarrow> Inr (emit ''No anomalies found in test set'' s)
              | anomaly_idx # _ \<Rightarrow>
                  (if length (X_test s) \<le> anomaly_idx then Inl IndexError
                   else (case best_model s of
                           None \<Rightarrow> Inl NameError
                         | Some m \<Rightarrow>
                             (case lime_explain_instance lib m (X_test s ! anomaly_idx) of
                                Inl e \<Rightarrow> Inl e
                              | Inr _ \<Rightarrow>
                                  Inr (s\<lparr>plots := plots s @ [''LIME Explanation for Anomaly Instance'']\<rparr>))))))
      else Inr (emit ''LIME analysis skipped because libraries are not installed.'' s))"

text \<open>The four file names of the persistence cells and the two names the messages give.\<close>

definition dump_path :: string where
  "dump_path = ''svm_nimda_1min_model.pkl''"

definition to_csv_path :: string where
  "to_csv_path = ''nimda_1_bgp_anomaly_selected_features.csv''"

definition load_path :: string where
  "load_path = ''svm_nimda_1min_model.pkl''"

definition read_csv_path :: string where
  "read_csv_path = ''nimda_1_bgp_anomaly_selected_features.csv''"

definition model_message :: string where
  "model_message = ''Model saved to '' @ [CHR 0x27] @ ''bgp_anomaly_svm_model.pkl'' @ [CHR 0x27]"

definition features_message :: string where
  "features_message =
     ''Selected features saved to '' @ [CHR 0x27] @ ''bgp_anomaly_selected_features.csv'' @ [CHR 0x27]"

text \<open>
  \<^verbatim>\<open>joblib.dump(best_model, ...)\<close>, a message,
  \<^verbatim>\<open>pd.DataFrame(top_features, columns=['Feature']).to_csv(..., index=False)\<close>, a message.
\<close>

definition save_cell :: "'m library \<Rightarrow> 'm notebook \<Rightarrow> py_error + 'm notebook" where
  "save_cell lib s =
     (case best_model s of
        None \<Rightarrow> Inl NameError
      | Some m \<Rightarrow>
          (let s1 = s\<lparr>files := (files s)(dump_path \<mapsto> joblib_dumps lib m)\<rparr>;
               s2 = emit model_message s1;
               s3 = s2\<lparr>files := (files s2)(to_csv_path \<mapsto> to_csv lib (top_features s2))\<rparr>
           in Inr (emit features_message s3)))"

text \<open>\<^verbatim>\<open>joblib.load(...)\<close> and \<^verbatim>\<open>pd.read_csv(...)['Feature'].tolist()\<close>\<close>

definition load_cell :: "'m library \<Rightarrow> 'm notebook \<Rightarrow> py_error + 'm notebook" where
  "load_cell lib s =
     (case files s load_path of
        None \<Rightarrow> Inl FileNotFoundError
      | Some b \<Rightarrow>
          (case joblib_loads lib b of
             Inl e \<Rightarrow> Inl e
           | Inr m \<Rightarrow>
               (case files s read_csv_path of
                  None \<Rightarrow> Inl FileNotFoundError
                | Some c \<Rightarrow>
                    (case read_csv_Feature lib c of
                       Inl e \<Rightarrow> Inl e
                     | Inr fs \<Rightarrow>
                         Inr (emit ''Model and feature list loaded successfully.''
                               (s\<lparr>loaded_model := Some m, selected_features := fs\<rparr>))))))"

definition run_notebook :: "'m library \<Rightarrow> env \<Rightarrow> 'm notebook \<Rightarrow> py_error + 'm notebook" where
  "run_notebook lib e =
     run_cells [imports_cell e, feature_analysis_cell lib, select_cell, split_cell lib,
       grid_search_cell lib, predict_cell lib, metrics_cell, pca_cell lib, pca_split_cell lib,
       shap_cell lib, lime_cell lib, save_cell lib, load_cell lib]"



section \<open>Observations and example data\<close>

text \<open>What a run leaves behind: a projection of the final state, or the error raised.\<close>

fun outcome :: "('s \<Rightarrow> 'a) \<Rightarrow> py_error + 's \<Rightarrow> py_error + 'a" where
  "outcome f (Inl e) = Inl e"
| "outcome f (Inr s) = Inr (f s)"

definition reported_metrics :: "'m notebook \<Rightarrow> fval \<times> fval \<times> fval \<times> string list" where
  "reported_metrics s = (precision s, recall s, f1 s, stderr s)"

definition searched :: "'m notebook \<Rightarrow> params option \<times> 'm option" where
  "searched s = (best_params s, best_model s)"

definition loaded :: "'m notebook \<Rightarrow> 'm option \<times> csv_value list" where
  "loaded s = (loaded_model s, selected_features s)"

text \<open>A state without its printed text.\<close>

definition silenced :: "'m notebook \<Rightarrow> 'm notebook" where
  "silenced s = s\<lparr>stdout := []\<rparr>"

text \<open>What the selector leaves behind: the ranked table, the selected names and their columns.\<close>

definition selection :: "'m notebook \<Rightarrow> (string \<times> fval) list \<times> string list \<times> column list" where
  "selection s = (feature_diff_df s, top_features s, X_selected s)"

text \<open>Whether no two of the shifts that are sorted have the same absolute value.\<close>

definition no_ties :: "(string \<times> fval) list \<Rightarrow> bool" where
  "no_ties rows = distinct (map abs_rank (filter (\<lambda>row. abs_fval (snd row) \<noteq> NaN) rows))"

text \<open>The state before the first cell runs: the table is loaded, nothing else is set.\<close>

definition fresh_notebook :: "dataset \<Rightarrow> 'm notebook" where
  "fresh_notebook d =
     \<lparr>df = d, EXPLAINABILITY_AVAILABLE = False, warnings_ignored = False,
      stdout = [], stderr = [], plots = [], files = Map.empty,
      feature_diff_df = [], top_features = [], X_selected = [],
      X_train = [], X_test = [], y_train = [], y_test = [],
      train_index = [], test_index = [],
      best_params = None, best_model = None, y_pred = [],
      precision = NaN, recall = NaN, f1 = NaN,
      X_pca = [], X_train_pca = [], X_test_pca = [], y_train_pca = [], y_test_pca = [],
      train_index_pca = [], test_index_pca = [],
      loaded_model = None, selected_features = []\<rparr>"

text \<open>A small table: four time buckets, the last two labelled as anomaly.\<close>

definition example_table :: dataset where
  "example_table =
     \<lparr>X_columns = [(''nadas'', [0, 0, 5, 3]), (''announcements'', [2, 4, 6, 12]),
                   (''flaps'', [1, 1, 1, 1])],
      y_labels = [0, 0, 1, 1]\<rparr>"

text \<open>
  A stand-in library for running the cells on the example: a series is summed from
  left to right, the sort visits the rows from the last to the first, the split takes
  every second row for testing, every candidate scores the same except the linear
  kernel with \<open>C = 1\<close>, a fitted model is a threshold on the first feature, a pickled
  model is a run of as many characters as the threshold, the feature list is stored
  one name per line, a number is a run of decimal digits and a truth value is one of
  the usual spellings.
\<close>

fun split_lines :: "bytes \<Rightarrow> bytes \<Rightarrow> bytes list" where
  "split_lines cur [] = (if cur = [] then [] else [cur])"
| "split_lines cur (b # bs) =
     (if b = CHR 0x0A then cur # split_lines [] bs else split_lines (cur @ [b]) bs)"

definition example_library :: "real library" where
  "example_library =
     \<lparr>series_sum = (\<lambda>vs. case vs of [] \<Rightarrow> Num 0 | v # rest \<Rightarrow> foldl fadd (Num v) (map Num rest)),
      tie_order = (\<lambda>keys. rev [0..<length keys]),
      split_indices = (\<lambda>X test_size random_state stratify.
        Inr (filter (\<lambda>i. even i) [0..<length X], filter (\<lambda>i. odd i) [0..<length X])),
      fold_score = (\<lambda>pipe sc p cv k X y.
        if svm_kernel p = Linear \<and> svm_C p = 1 then 1 else 1 / 2),
      refit = (\<lambda>pipe p X y. Inr (svm_C p)),
      predict = (\<lambda>m X. map (\<lambda>row. case row of [] \<Rightarrow> 0 | v # _ \<Rightarrow> if m < v then 1 else 0) X),
      scale_pca = (\<lambda>X. Inr (map (take 2) X)),
      shap_analysis = (\<lambda>Xtr ytr Xte names. Inr ()),
      lime_explainer = (\<lambda>Xtr names. Inr ()),
      lime_explain_instance = (\<lambda>m row. Inr ()),
      joblib_dumps = (\<lambda>m. replicate (nat \<lfloor>m\<rfloor>) (CHR ''m'')),
      joblib_loads = (\<lambda>b. Inr (real (length b))),
      to_csv = (\<lambda>names. concat (map (\<lambda>n. n @ [CHR 0x0A]) (''Feature'' # names))),
      read_csv_cells = (\<lambda>b. case split_lines [] b of
                                [] \<Rightarrow> Inl ValueError
                              | header # rows \<Rightarrow>
                                  if header = ''Feature'' then Inr rows else Inl KeyError),
      as_number = (\<lambda>s. if s \<noteq> [] \<and> list_all (\<lambda>c. c \<in> set ''0123456789'') s
                       then Some (real (foldl (\<lambda>n c. 10 * n + (of_char c - 48)) 0 s))
                       else None),
      as_bool = (\<lambda>s. if s \<in> set [''True'', ''TRUE'', ''true''] then Some True
                     else if s \<in> set [''False'', ''FALSE'', ''false''] then Some False
                     else None)\<rparr>"

definition without_explainers :: env where
  "without_explainers = \<lparr>shap_installed = False, lime_installed = False\<rparr>"

text \<open>A table whose odd rows, the test rows of the stand-in split, are all normal.\<close>

definition quiet_table :: dataset where
  "quiet_table =
     \<lparr>X_columns = [(''nadas'', [3, 2, 5, 0]), (''announcements'', [6, 2, 12, 4])],
      y_labels = [1, 0, 1, 0]\<rparr>"

text \<open>A state in which the test split has two rows, both normal and both predicted normal.\<close>

definition no_anomaly_state :: "real notebook" where
  "no_anomaly_state = (fresh_notebook quiet_table)\<lparr>y_test := [0, 0], y_pred := [0, 0]\<rparr>"

text \<open>
  A table with one feature whose two normal values are the largest power of two that
  float64 holds, and a state whose single selected feature is called \<^verbatim>\<open>NA\<close>.
\<close>

definition overflow_table :: dataset where
  "overflow_table = \<lparr>X_columns = [(''volume'', [2 ^ 1023, 2 ^ 1023, 1])], y_labels = [0, 0, 1]\<rparr>"



text \<open>A table whose two features have the same shift.\<close>

definition tied_table :: dataset where
  "tied_table = \<lparr>X_columns = [(''withdrawals'', [1, 1, 2, 2]), (''updates'', [2, 2, 4, 4])],
                  y_labels = [0, 0, 1, 1]\<rparr>"


text \<open>The example state once the selector has run, as the split cell finds it.\<close>

definition selected_state :: "real notebook" where
  "selected_state =
     (fresh_notebook quiet_table)\<lparr>warnings_ignored := True, X_selected := X_columns quiet_table\<rparr>"

section \<open>Properties of the feature analysis\<close>

lemma foldl_update_fresh:
  "distinct (map fst cs) \<Longrightarrow> set (map fst cs) \<inter> set (map fst acc) = {} \<Longrightarrow>
   foldl (\<lambda>acc c. AList.update (fst c) (g c) acc) acc cs = acc @ map (\<lambda>c. (fst c, g c)) cs"
proof (induction cs arbitrary: acc)
  case Nil
  then show ?case by simp
next
  case (Cons c cs)
  have fresh: "fst c \<notin> fst ` set acc"
    using Cons.prems(2) by auto
  have upd: "AList.update (fst c) (g c) acc = acc @ [(fst c, g c)]"
    using fresh by (induction acc) auto
  have "foldl (\<lambda>acc c. AList.update (fst c) (g c) acc) (acc @ [(fst c, g c)]) cs
          = (acc @ [(fst c, g c)]) @ map (\<lambda>c. (fst c, g c)) cs"
    using Cons.prems by (intro Cons.IH) auto
  then show ?case by (simp add: upd)
qed

lemma foldl_skip_class:
  "\<forall>c \<in> set cs. fst c \<noteq> ''class'' \<Longrightarrow>
   foldl (\<lambda>acc c. if fst c \<noteq> ''class'' then AList.update (fst c) (g c) acc else acc) acc cs
     = foldl (\<lambda>acc c. AList.update (fst c) (g c) acc) acc cs"
  by (induction cs arbitrary: acc) auto

lemma feature_diffs_map:
  assumes "wf_dataset d"
  shows "feature_diffs_of lib d =
           map (\<lambda>c. (fst c, column_diff lib (y_labels d) (snd c))) (X_columns d)"
proof -
  have no_class: "\<forall>c \<in> set (X_columns d). fst c \<noteq> ''class''"
    using assms by (force simp: wf_dataset_def)
  have dist: "distinct (map fst (X_columns d))"
    using assms by (simp add: wf_dataset_def)
  show ?thesis
    unfolding feature_diffs_of_def
    using foldl_update_fresh [OF dist, of "[]" "\<lambda>c. column_diff lib (y_labels d) (snd c)"]
    by (simp add: foldl_skip_class [OF no_class])
qed

lemma map_of_keyed:
  "distinct (map fst cs) \<Longrightarrow> (k, v) \<in> set cs \<Longrightarrow>
   map_of (map (\<lambda>c. (fst c, g c)) cs) k = Some (g (k, v))"
  by (induction cs) (auto simp: rev_image_eqI)

lemma feature_diffs_lookup:
  assumes "wf_dataset d" "(col, vs) \<in> set (X_columns d)"
  shows "map_of (feature_diffs_of lib d) col = Some (column_diff lib (y_labels d) vs)"
  using assms map_of_keyed [of "X_columns d" col vs "\<lambda>c. column_diff lib (y_labels d) (snd c)"]
  by (simp add: feature_diffs_map wf_dataset_def)

lemma anomaly_present: "filter (\<lambda>l. l = 1) ys \<noteq> [] \<longleftrightarrow> 1 \<in> set ys"
  by (auto simp: filter_empty_conv)

lemma round64_in_range: "in_range x \<Longrightarrow> round64 x = Num (round_to_double x)"
  by (simp add: round64_def)

lemma feature_diff_finite_iff:
  "is_finite (feature_diff x y) \<longleftrightarrow>
     (\<exists>a b. x = Num a \<and> y = Num b
        \<and> (if a = 0 then b = 0
            else in_range (b - a) \<and> in_range (round_to_double (b - a) / a)))"
proof (cases x)
  case (Num a)
  show ?thesis
  proof (cases y)
    case (Num b)
    show ?thesis
      by (cases "in_range (b - a)")
         (simp_all add: \<open>x = Num a\<close> \<open>y = Num b\<close> feature_diff_def round64_def)
  qed (simp_all add: \<open>x = Num a\<close> feature_diff_def)
qed (cases y; simp add: feature_diff_def)+

lemma abs_rank_nan: "abs_fval (snd row) = NaN \<Longrightarrow> abs_rank row = (0, 0)"
  by (simp add: abs_rank_def)

lemma abs_rank_non_nan: "abs_fval (snd row) \<noteq> NaN \<Longrightarrow> (0, 0) \<le> abs_rank row"
  by (cases "snd row") (auto simp: abs_rank_def)

lemma mset_arrange: "mset (arrange p xs) = mset xs"
proof (cases "sort p = [0..<length xs]")
  case True
  then have "mset p = mset [0..<length xs]"
    by (metis mset_sort)
  then have "mset (map (\<lambda>i. xs ! i) p) = mset (map (\<lambda>i. xs ! i) [0..<length xs])"
    by (metis mset_map)
  then show ?thesis
    using True by (simp add: arrange_def map_nth)
next
  case False
  then show ?thesis by (simp add: arrange_def)
qed

lemma set_arrange: "set (arrange p xs) = set xs"
  using mset_arrange [of p xs] by (rule mset_eq_setD)

lemma sort_values_sorted:
  "sorted_wrt (\<lambda>a b. abs_rank b \<le> abs_rank a) (sort_values_abs_desc lib rows)"
proof -
  let ?non = "filter (\<lambda>row. abs_fval (snd row) \<noteq> NaN) rows"
  let ?nan = "filter (\<lambda>row. abs_fval (snd row) = NaN) rows"
  let ?seen = "arrange (tie_order lib (map (\<lambda>row. abs_fval (snd row)) ?non)) ?non"
  have "sorted (map abs_rank (sort_key abs_rank (rev ?seen)))"
    by (rule sorted_sort_key)
  then have a: "sorted_wrt (\<lambda>a b. abs_rank b \<le> abs_rank a) (rev (sort_key abs_rank (rev ?seen)))"
    by (simp add: sorted_map sorted_wrt_rev)
  have b: "sorted_wrt (\<lambda>a b. abs_rank b \<le> abs_rank a) ?nan"
    by (rule sorted_wrt_mono_rel [where P = "\<lambda>a b. True"]) (auto simp: abs_rank_nan)
  have c: "\<forall>x \<in> set (rev (sort_key abs_rank (rev ?seen))). \<forall>y \<in> set ?nan. abs_rank y \<le> abs_rank x"
  proof (intro ballI)
    fix x y
    assume "x \<in> set (rev (sort_key abs_rank (rev ?seen)))" "y \<in> set ?nan"
    then have "abs_fval (snd x) \<noteq> NaN" "abs_fval (snd y) = NaN"
      by (auto simp: set_arrange)
    then show "abs_rank y \<le> abs_rank x"
      using abs_rank_nan [of y] abs_rank_non_nan [of x] by simp
  qed
  show ?thesis
    unfolding sort_values_abs_desc_def Let_def sorted_wrt_append
    using a b c by blast
qed

lemma sort_values_mset: "mset (sort_values_abs_desc lib rows) = mset rows"
  unfolding sort_values_abs_desc_def Let_def
  by (simp add: mset_arrange multiset_partition [symmetric])

lemma sort_values_length: "length (sort_values_abs_desc lib rows) = length rows"
  using sort_values_mset [of lib rows] by (metis size_mset)

lemma sorted_desc_nth:
  assumes "i < j" "j < length (sort_values_abs_desc lib rows)"
  shows "abs_rank (sort_values_abs_desc lib rows ! j) \<le> abs_rank (sort_values_abs_desc lib rows ! i)"
  using sorted_wrt_nth_less [OF sort_values_sorted assms] .

lemma inf_before_finite:
  assumes "i < length (sort_values_abs_desc lib rows)" "j < length (sort_values_abs_desc lib rows)"
    and "snd (sort_values_abs_desc lib rows ! i) = PosInf
         \<or> snd (sort_values_abs_desc lib rows ! i) = NegInf"
    and "snd (sort_values_abs_desc lib rows ! j) = Num r"
  shows "i < j"
proof (rule ccontr)
  assume "\<not> i < j"
  moreover have "i \<noteq> j"
    using assms(3,4) by auto
  ultimately have "j < i" by simp
  from sorted_desc_nth [OF this assms(1)]
  show False
    using assms(3,4) by (auto simp: abs_rank_def)
qed

text \<open>
  Claim C1. For a feature column of the table the selector stores under the column's
  name the relative shift: with the normal mean equal to 0 it is 0 if the anomaly mean
  is 0 too and \<^verbatim>\<open>float('inf')\<close> otherwise; else it is the float64 quotient
  \<open>(anomaly_mean - normal_mean) / normal_mean\<close>, that is, for finite means whose
  difference is in range, the rounded quotient of the rounded difference. The means are
  those of the rows labelled 0 and of the rows labelled 1, and \<open>anomaly_mean\<close> is 0 when
  no row is labelled 1. In the ranked table every row with an infinite shift stands
  before every row with a finite shift.
\<close>

theorem relative_shift_policy:
  assumes "wf_dataset d" and "(col, vs) \<in> set (X_columns d)"
  shows "map_of (feature_diffs_of lib d) col =
           Some (let normal_mean = mean lib (rows_where 0 (y_labels d) vs);
                     anomaly_mean = (if 1 \<in> set (y_labels d)
                                     then mean lib (rows_where 1 (y_labels d) vs) else Num 0)
                 in if normal_mean = Num 0
                    then (if anomaly_mean = Num 0 then Num 0 else PosInf)
                    else fdiv (fsub anomaly_mean normal_mean) normal_mean)
         \<and> (\<forall>a b. mean lib (rows_where 0 (y_labels d) vs) = Num a \<and> a \<noteq> 0
                \<and> (if 1 \<in> set (y_labels d)
                    then mean lib (rows_where 1 (y_labels d) vs) else Num 0) = Num b
                \<and> in_range (b - a)
              \<longrightarrow> map_of (feature_diffs_of lib d) col
                    = Some (round64 (round_to_double (b - a) / a)))
         \<and> (\<forall>i j r. i < length (feature_diff_df_of lib d) \<and> j < length (feature_diff_df_of lib d)
                \<and> (snd (feature_diff_df_of lib d ! i) = PosInf
                    \<or> snd (feature_diff_df_of lib d ! i) = NegInf)
                \<and> snd (feature_diff_df_of lib d ! j) = Num r \<longrightarrow> i < j)"
proof -
  let ?nm = "mean lib (rows_where 0 (y_labels d) vs)"
  let ?am = "if 1 \<in> set (y_labels d) then mean lib (rows_where 1 (y_labels d) vs) else Num 0"
  have stored: "map_of (feature_diffs_of lib d) col = Some (feature_diff ?nm ?am)"
    using feature_diffs_lookup [OF assms, where lib = lib]
    by (simp add: column_diff_def anomaly_mean_of_def anomaly_present)
  have exact: "feature_diff (Num a) (Num b) = round64 (round_to_double (b - a) / a)"
    if "a \<noteq> 0" "in_range (b - a)" for a b
    using that by (simp add: feature_diff_def round64_in_range)
  have rank: "i < j"
    if "i < length (feature_diff_df_of lib d)" "j < length (feature_diff_df_of lib d)"
      "snd (feature_diff_df_of lib d ! i) = PosInf \<or> snd (feature_diff_df_of lib d ! i) = NegInf"
      "snd (feature_diff_df_of lib d ! j) = Num r" for i j r
    using inf_before_finite [of i lib "feature_diffs_of lib d" j r] that
    by (simp add: feature_diff_df_of_def)
  have first: "map_of (feature_diffs_of lib d) col =
           Some (let normal_mean = ?nm; anomaly_mean = ?am
                 in if normal_mean = Num 0
                    then (if anomaly_mean = Num 0 then Num 0 else PosInf)
                    else fdiv (fsub anomaly_mean normal_mean) normal_mean)"
    unfolding stored by (simp add: feature_diff_def Let_def)
  have second: "\<forall>a b. ?nm = Num a \<and> a \<noteq> 0 \<and> ?am = Num b \<and> in_range (b - a)
              \<longrightarrow> map_of (feature_diffs_of lib d) col
                    = Some (round64 (round_to_double (b - a) / a))"
    unfolding stored using exact by auto
  show ?thesis
    using first second rank by blast
qed

text \<open>
  Claim C4, as the code has it. On a table with at least one row labelled 1 and at
  least one labelled 0, the difference computed for a column is a value (the guarded
  division raises nothing). It is finite exactly when both group means are finite and
  either both are 0, or the normal mean is not 0 and neither the difference of the means
  nor the quotient of the rounded difference by the normal mean leaves the float64 range.
  With the normal mean 0 and the anomaly mean not 0 it is \<^verbatim>\<open>float('inf')\<close>; when a mean,
  the difference or the quotient has overflowed it is an infinity or NaN.
\<close>

theorem feature_diff_guarded:
  assumes "wf_dataset d" and "(col, vs) \<in> set (X_columns d)"
    and "1 \<in> set (y_labels d)" and "0 \<in> set (y_labels d)"
  shows "\<exists>v. map_of (feature_diffs_of lib d) col = Some v
           \<and> (is_finite v \<longleftrightarrow>
                (\<exists>a b. mean lib (rows_where 0 (y_labels d) vs) = Num a
                   \<and> mean lib (rows_where 1 (y_labels d) vs) = Num b
                   \<and> (if a = 0 then b = 0
                       else in_range (b - a) \<and> in_range (round_to_double (b - a) / a))))
           \<and> (mean lib (rows_where 0 (y_labels d) vs) = Num 0
                \<and> mean lib (rows_where 1 (y_labels d) vs) \<noteq> Num 0 \<longrightarrow> v = PosInf)
           \<and> (\<not> is_finite v \<longrightarrow> v = PosInf \<or> v = NegInf \<or> v = NaN)"
proof -
  let ?nm = "mean lib (rows_where 0 (y_labels d) vs)"
  let ?am = "mean lib (rows_where 1 (y_labels d) vs)"
  have stored: "map_of (feature_diffs_of lib d) col = Some (feature_diff ?nm ?am)"
    using feature_diffs_lookup [OF assms(1,2), where lib = lib] assms(3)
    by (simp add: column_diff_def anomaly_mean_of_def anomaly_present)
  have zero: "?nm = Num 0 \<and> ?am \<noteq> Num 0 \<longrightarrow> feature_diff ?nm ?am = PosInf"
    by (simp add: feature_diff_def)
  have other: "\<not> is_finite (feature_diff ?nm ?am) \<longrightarrow>
      feature_diff ?nm ?am = PosInf \<or> feature_diff ?nm ?am = NegInf \<or> feature_diff ?nm ?am = NaN"
    by (cases "feature_diff ?nm ?am") simp_all
  show ?thesis
    using stored zero other feature_diff_finite_iff [of ?nm ?am] by blast
qed

lemma feature_diffs_length: "wf_dataset d \<Longrightarrow> length (feature_diffs_of lib d) = length (X_columns d)"
  by (simp add: feature_diffs_map)

lemma feature_diffs_names: "wf_dataset d \<Longrightarrow> map fst (feature_diffs_of lib d) = map fst (X_columns d)"
  by (simp add: feature_diffs_map comp_def)

lemma feature_diff_df_names:
  assumes "wf_dataset d"
  shows "set (map fst (feature_diff_df_of lib d)) = set (map fst (X_columns d))"
proof -
  have "mset (map fst (feature_diff_df_of lib d)) = mset (map fst (feature_diffs_of lib d))"
    by (simp add: feature_diff_df_of_def sort_values_mset)
  then have "set (map fst (feature_diff_df_of lib d)) = set (map fst (feature_diffs_of lib d))"
    by (rule mset_eq_setD)
  then show ?thesis
    using feature_diffs_names [OF assms, where lib = lib] by simp
qed

lemma select_columns_ok:
  "set ns \<subseteq> fst ` set cols \<Longrightarrow> \<exists>sel. select_columns cols ns = Inr sel \<and> map fst sel = ns"
proof (induction ns)
  case Nil
  then show ?case by simp
next
  case (Cons n ns)
  then obtain sel where sel: "select_columns cols ns = Inr sel" "map fst sel = ns"
    by auto
  from Cons.prems obtain vs where "map_of cols n = Some vs"
    by (metis list.set_intros(1) subsetD weak_map_of_SomeI map_of_eq_None_iff not_None_eq)
  then show ?case
    using sel by simp
qed

text \<open>
  Claim C7. The ranked table is a rearrangement of the computed shifts in descending
  order of absolute value (infinite shifts first, NaN last), whatever order the library
  gives to rows with equal keys; the selection is its first 15 names, and the first \<open>K\<close>
  rows for any \<open>K\<close> are \<open>min K n\<close> rows for \<open>n\<close> feature columns: with \<open>K\<close> at least \<open>n\<close>
  all features come back in ranked order, and extracting the selected columns raises
  nothing.
\<close>

theorem ranking_and_top_k:
  assumes "wf_dataset d"
  shows "mset (feature_diff_df_of lib d) = mset (feature_diffs_of lib d)
       \<and> (\<forall>i j a b. i < j \<and> j < length (feature_diff_df_of lib d)
             \<and> snd (feature_diff_df_of lib d ! i) = Num a \<and> snd (feature_diff_df_of lib d ! j) = Num b
             \<longrightarrow> \<bar>b\<bar> \<le> \<bar>a\<bar>)
       \<and> (\<forall>i j. i < j \<and> j < length (feature_diff_df_of lib d)
             \<longrightarrow> abs_rank (feature_diff_df_of lib d ! j) \<le> abs_rank (feature_diff_df_of lib d ! i))
       \<and> top_features_of lib d = map fst (take 15 (feature_diff_df_of lib d))
       \<and> length (top_features_of lib d) = min 15 (length (X_columns d))
       \<and> (length (X_columns d) \<le> 15 \<longrightarrow> top_features_of lib d = map fst (feature_diff_df_of lib d))
       \<and> (\<forall>K. length (head_rows K (feature_diff_df_of lib d)) = min K (length (X_columns d))
             \<and> (length (X_columns d) \<le> K \<longrightarrow>
                  head_rows K (feature_diff_df_of lib d) = feature_diff_df_of lib d))
       \<and> (\<exists>cols. X_selected_of lib d = Inr cols \<and> map fst cols = top_features_of lib d)"
proof -
  let ?df = "feature_diff_df_of lib d"
  have len: "length ?df = length (X_columns d)"
    by (simp add: feature_diff_df_of_def sort_values_length feature_diffs_length [OF assms])
  have perm: "mset ?df = mset (feature_diffs_of lib d)"
    by (simp add: feature_diff_df_of_def sort_values_mset)
  have desc: "\<bar>b\<bar> \<le> \<bar>a\<bar>"
    if "i < j" "j < length ?df" "snd (?df ! i) = Num a" "snd (?df ! j) = Num b" for i j a b
    using sorted_desc_nth [of i j lib "feature_diffs_of lib d"] that
    by (simp add: feature_diff_df_of_def abs_rank_def)
  have rank: "abs_rank (?df ! j) \<le> abs_rank (?df ! i)" if "i < j" "j < length ?df" for i j
    using sorted_desc_nth [of i j lib "feature_diffs_of lib d"] that
    by (simp add: feature_diff_df_of_def)
  have top: "top_features_of lib d = map fst (take 15 ?df)"
    by (simp add: top_features_of_def head_rows_def)
  have "set (top_features_of lib d) \<subseteq> set (map fst ?df)"
    unfolding top by (metis set_take_subset take_map)
  then have "set (top_features_of lib d) \<subseteq> fst ` set (X_columns d)"
    using feature_diff_df_names [OF assms, where lib = lib] by simp
  from select_columns_ok [OF this]
  have sel: "\<exists>cols. X_selected_of lib d = Inr cols \<and> map fst cols = top_features_of lib d"
    by (simp add: X_selected_of_def)
  have cap: "length (head_rows K ?df) = min K (length (X_columns d))
      \<and> (length (X_columns d) \<le> K \<longrightarrow> head_rows K ?df = ?df)" for K
    using len by (simp add: head_rows_def)
  have "length (top_features_of lib d) = min 15 (length (X_columns d))"
    and "length (X_columns d) \<le> 15 \<longrightarrow> top_features_of lib d = map fst ?df"
    using len by (simp_all add: top)
  then show ?thesis
    using perm desc rank top sel cap by blast
qed

lemmas float_eval = round64_def in_range_def overflow_threshold_def round_to_double_def
  binary_exponent_def bit_length.simps pow2_def round_half_even_def

lemma example_series_sum:
  "series_sum example_library [] = Num 0"
  "series_sum example_library (v # rest) = foldl fadd (Num v) (map Num rest)"
  by (simp_all add: example_library_def)

lemma example_tie_order: "tie_order example_library keys = rev [0..<length keys]"
  by (simp add: example_library_def)

lemma example_table_wf: "wf_dataset example_table"
  by (simp add: wf_dataset_def example_table_def)

lemma example_feature_diffs:
  "feature_diffs_of example_library example_table =
     [(''nadas'', PosInf), (''announcements'', Num 2), (''flaps'', Num 0)]"
  by (simp add: feature_diffs_map [OF example_table_wf])
     (simp add: example_table_def column_diff_def mean_def anomaly_mean_of_def rows_where_def
        feature_diff_def example_series_sum float_eval)

lemma example_feature_diff_df:
  "feature_diff_df_of example_library example_table =
     [(''nadas'', PosInf), (''announcements'', Num 2), (''flaps'', Num 0)]"
  by (simp add: feature_diff_df_of_def example_feature_diffs sort_values_abs_desc_def abs_rank_def
      arrange_def example_tie_order upt_rec [of _ 3] upt_rec [of _ 2])

theorem relative_shift_policy_witness:
  "map_of (feature_diffs_of example_library example_table) ''nadas'' = Some PosInf
   \<and> map_of (feature_diffs_of example_library example_table) ''announcements'' = Some (Num 2)
   \<and> snd (feature_diff_df_of example_library example_table ! 0) = PosInf
   \<and> snd (feature_diff_df_of example_library example_table ! 1) = Num 2"
proof -
  have col: "(''nadas'', [0, 0, 5, 3]) \<in> set (X_columns example_table)"
    by (simp add: example_table_def)
  have col': "(''announcements'', [2, 4, 6, 12]) \<in> set (X_columns example_table)"
    by (simp add: example_table_def)
  note nadas = relative_shift_policy [OF example_table_wf col, where lib = example_library, THEN conjunct1]
  note anns = relative_shift_policy [OF example_table_wf col', where lib = example_library, THEN conjunct1]
  have "map_of (feature_diffs_of example_library example_table) ''nadas'' = Some PosInf"
    unfolding nadas
    by (simp add: example_table_def mean_def rows_where_def example_series_sum float_eval)
  moreover have "map_of (feature_diffs_of example_library example_table) ''announcements'' = Some (Num 2)"
    unfolding anns
    by (simp add: example_table_def mean_def rows_where_def example_series_sum float_eval)
  ultimately show ?thesis
    by (simp add: example_feature_diff_df)
qed

theorem feature_diff_guarded_witness:
  "\<exists>v. map_of (feature_diffs_of example_library example_table) ''announcements'' = Some v
       \<and> is_finite v"
proof -
  have col: "(''announcements'', [2, 4, 6, 12]) \<in> set (X_columns example_table)"
    by (simp add: example_table_def)
  have l1: "1 \<in> set (y_labels example_table)" and l0: "0 \<in> set (y_labels example_table)"
    by (simp_all add: example_table_def)
  have nm: "mean example_library (rows_where 0 (y_labels example_table) [2, 4, 6, 12]) = Num 3"
    and am: "mean example_library (rows_where 1 (y_labels example_table) [2, 4, 6, 12]) = Num 9"
    by (simp_all add: example_table_def mean_def rows_where_def example_series_sum float_eval)
  have fits: "in_range (9 - 3) \<and> in_range (round_to_double (9 - 3) / 3)"
    by (simp add: float_eval)
  from feature_diff_guarded [OF example_table_wf col l1 l0, where lib = example_library]
  show ?thesis
    unfolding nm am using fits by auto
qed

theorem feature_diff_finite_counterexample:
  "map_of (feature_diffs_of example_library overflow_table) ''volume'' = Some NaN
   \<and> mean example_library (rows_where 0 (y_labels overflow_table) [2 ^ 1023, 2 ^ 1023, 1]) = PosInf
   \<and> mean example_library (rows_where 1 (y_labels overflow_table) [2 ^ 1023, 2 ^ 1023, 1]) = Num 1"
  by (simp add: feature_diffs_of_def overflow_table_def column_diff_def mean_def anomaly_mean_of_def
      rows_where_def feature_diff_def example_series_sum float_eval)

theorem ranking_and_top_k_witness:
  "top_features_of example_library example_table = [''nadas'', ''announcements'', ''flaps'']
   \<and> length (top_features_of example_library example_table) = min 15 (length (X_columns example_table))"
proof -
  from ranking_and_top_k [OF example_table_wf, where lib = example_library]
  have top: "top_features_of example_library example_table
      = map fst (take 15 (feature_diff_df_of example_library example_table))"
    and len: "length (top_features_of example_library example_table)
      = min 15 (length (X_columns example_table))"
    by blast+
  show ?thesis
    using top len by (simp add: example_feature_diff_df)
qed

section \<open>The evaluator on a test split without anomalies\<close>

lemma run_cells_append:
  "run_cells (cs @ ds) s = (case run_cells cs s of Inl e \<Rightarrow> Inl e | Inr t \<Rightarrow> run_cells ds t)"
  by (induction cs arbitrary: s) (auto split: sum.splits)

lemma foldl_warn_ignored: "warnings_ignored s \<Longrightarrow> foldl warn s ws = s"
  by (induction ws) (simp_all add: warn_def)

lemma present_labels_short:
  assumes "set ys \<subseteq> {0, 1 :: int}"
  shows "length (remdups ys) \<le> 2"
proof -
  have "card (set ys) \<le> card {0, 1 :: int}"
    by (rule card_mono) (use assms in auto)
  then show ?thesis
    by (simp add: length_remdups_card_conv)
qed

lemma present_labels_single:
  assumes "set ys \<subseteq> {0 :: int}"
  shows "length (remdups ys) < 2"
proof -
  have "card (set ys) \<le> card {0 :: int}"
    by (rule card_mono) (use assms in auto)
  then show ?thesis
    by (simp add: length_remdups_card_conv)
qed

lemma prf_no_anomaly:
  assumes "set yt = {0}" and "set yp \<subseteq> {0, 1}" and "length yp = length yt"
  shows "\<exists>ws. precision_recall_fscore_support yt yp = Inr (Num 0, Num 0, Num 0, ws)"
proof -
  have all: "set (yt @ yp) \<subseteq> {0, 1}"
    using assms by auto
  have short: "\<not> 2 < length (remdups (yt @ yp))"
    using present_labels_short [OF all] by simp
  have single: "1 \<notin> set (remdups (yt @ yp)) \<Longrightarrow> \<not> 2 \<le> length (remdups (yt @ yp))"
  proof -
    assume "1 \<notin> set (remdups (yt @ yp))"
    then have "set (yt @ yp) \<subseteq> {0}"
      using all by auto
    from present_labels_single [OF this] show ?thesis by simp
  qed
  have tp: "count_where (\<lambda>p. fst p = 1 \<and> snd p = 1) (zip yt yp) = 0"
    using assms(1) by (auto simp: count_where_def filter_empty_conv dest: set_zip_leftD)
  have ts: "count_where (\<lambda>l. l = 1) yt = 0"
    using assms(1) by (auto simp: count_where_def filter_empty_conv)
  have div0: "fst (prf_divide 0 n m) = 0" for n m
    by (simp add: prf_divide_def)
  show ?thesis
    using short single assms(3)
    unfolding precision_recall_fscore_support_def Let_def tp ts
    by (auto simp: div0)
qed

lemma run_cells_Cons_Inr:
  "run_cells (c # cs) s = Inr t \<longleftrightarrow> (\<exists>u. c s = Inr u \<and> run_cells cs u = Inr t)"
  by (cases "c s") auto

lemma imports_cell_keeps:
  "imports_cell e s = Inr t \<Longrightarrow> warnings_ignored t \<and> files t = files s \<and> df t = df s"
  by (auto simp: imports_cell_def emit_def Let_def split: if_splits)

lemma feature_analysis_cell_keeps:
  "feature_analysis_cell lib s = Inr t \<Longrightarrow>
   warnings_ignored t = warnings_ignored s \<and> files t = files s \<and> df t = df s
   \<and> EXPLAINABILITY_AVAILABLE t = EXPLAINABILITY_AVAILABLE s"
  by (auto simp: feature_analysis_cell_def)

lemma select_cell_keeps:
  "select_cell s = Inr t \<Longrightarrow>
   warnings_ignored t = warnings_ignored s \<and> files t = files s \<and> df t = df s
   \<and> EXPLAINABILITY_AVAILABLE t = EXPLAINABILITY_AVAILABLE s"
  by (auto simp: select_cell_def Let_def split: sum.splits)

lemma split_cell_keeps:
  "split_cell lib s = Inr t \<Longrightarrow>
   warnings_ignored t = warnings_ignored s \<and> files t = files s \<and> df t = df s
   \<and> EXPLAINABILITY_AVAILABLE t = EXPLAINABILITY_AVAILABLE s \<and> X_selected t = X_selected s"
  by (auto simp: split_cell_def Let_def split: sum.splits)

lemma grid_search_cell_keeps:
  "grid_search_cell lib s = Inr t \<Longrightarrow>
   warnings_ignored t = warnings_ignored s \<and> files t = files s \<and> df t = df s
   \<and> EXPLAINABILITY_AVAILABLE t = EXPLAINABILITY_AVAILABLE s \<and> X_selected t = X_selected s
   \<and> train_index t = train_index s \<and> test_index t = test_index s
   \<and> y_train t = y_train s \<and> y_test t = y_test s"
  by (auto simp: grid_search_cell_def split: sum.splits)

lemma predict_cell_keeps:
  "predict_cell lib s = Inr t \<Longrightarrow>
   warnings_ignored t = warnings_ignored s \<and> files t = files s \<and> df t = df s
   \<and> EXPLAINABILITY_AVAILABLE t = EXPLAINABILITY_AVAILABLE s \<and> X_selected t = X_selected s
   \<and> train_index t = train_index s \<and> test_index t = test_index s
   \<and> y_train t = y_train s \<and> y_test t = y_test s"
  by (auto simp: predict_cell_def split: option.splits)

lemma foldl_warn_keeps:
  "files (foldl warn u ws) = files u \<and> df (foldl warn u ws) = df u
   \<and> EXPLAINABILITY_AVAILABLE (foldl warn u ws) = EXPLAINABILITY_AVAILABLE u
   \<and> X_selected (foldl warn u ws) = X_selected u
   \<and> train_index (foldl warn u ws) = train_index u \<and> test_index (foldl warn u ws) = test_index u
   \<and> y_train (foldl warn u ws) = y_train u \<and> y_test (foldl warn u ws) = y_test u
   \<and> precision (foldl warn u ws) = precision u \<and> recall (foldl warn u ws) = recall u
   \<and> f1 (foldl warn u ws) = f1 u \<and> stdout (foldl warn u ws) = stdout u"
  by (induction ws arbitrary: u) (simp_all add: warn_def)

lemma metrics_cell_keeps:
  "metrics_cell s = Inr t \<Longrightarrow>
   files t = files s \<and> df t = df s
   \<and> EXPLAINABILITY_AVAILABLE t = EXPLAINABILITY_AVAILABLE s \<and> X_selected t = X_selected s
   \<and> train_index t = train_index s \<and> test_index t = test_index s
   \<and> y_train t = y_train s \<and> y_test t = y_test s"
  by (auto simp: metrics_cell_def foldl_warn_keeps split: sum.splits)

lemma pca_cell_keeps:
  "pca_cell lib s = Inr t \<Longrightarrow>
   files t = files s \<and> df t = df s
   \<and> EXPLAINABILITY_AVAILABLE t = EXPLAINABILITY_AVAILABLE s
   \<and> train_index t = train_index s \<and> test_index t = test_index s
   \<and> y_train t = y_train s \<and> y_test t = y_test s
   \<and> length (X_pca t) = length (y_labels (df s))"
  by (auto simp: pca_cell_def Let_def split: sum.splits if_splits)

lemma pca_split_cell_keeps:
  "pca_split_cell lib s = Inr t \<Longrightarrow>
   files t = files s \<and> EXPLAINABILITY_AVAILABLE t = EXPLAINABILITY_AVAILABLE s"
  by (auto simp: pca_split_cell_def Let_def split: sum.splits)

lemma shap_cell_keeps: "shap_cell lib s = Inr t \<Longrightarrow> files t = files s"
  by (auto simp: shap_cell_def emit_def split: sum.splits if_splits)

lemma lime_cell_keeps: "lime_cell lib s = Inr t \<Longrightarrow> files t = files s"
  by (auto simp: lime_cell_def emit_def split: sum.splits if_splits list.splits option.splits)

lemma load_cell_keeps: "load_cell lib s = Inr t \<Longrightarrow> files t = files s"
  by (auto simp: load_cell_def emit_def split: sum.splits option.splits)

lemma prefix_ignores_warnings:
  assumes "run_cells [imports_cell e, feature_analysis_cell lib, select_cell, split_cell lib,
             grid_search_cell lib, predict_cell lib] s0 = Inr s"
  shows "warnings_ignored s"
proof -
  from assms obtain s1 s2 s3 s4 s5 where
    "imports_cell e s0 = Inr s1" "feature_analysis_cell lib s1 = Inr s2" "select_cell s2 = Inr s3"
    "split_cell lib s3 = Inr s4" "grid_search_cell lib s4 = Inr s5" "predict_cell lib s5 = Inr s"
    unfolding run_cells_Cons_Inr by auto
  then show ?thesis
    using imports_cell_keeps feature_analysis_cell_keeps select_cell_keeps split_cell_keeps
      grid_search_cell_keeps predict_cell_keeps by metis
qed

text \<open>
  Claim C6, as the code has it. After the cells up to the prediction (the import cell has
  set the warning filter to \<^verbatim>\<open>'ignore'\<close>), on a test split with no row labelled
  anomaly and predictions among 0 and 1, the evaluator stores the number 0 for
  precision, recall and F1, and shows no warning: nothing marks the metrics as undefined.
\<close>

theorem zero_anomaly_metrics:
  assumes "run_cells [imports_cell e, feature_analysis_cell lib, select_cell, split_cell lib,
             grid_search_cell lib, predict_cell lib] s0 = Inr s"
    and "set (y_test s) = {0}"
    and "set (y_pred s) \<subseteq> {0, 1}"
    and "length (y_pred s) = length (y_test s)"
  shows "\<exists>t. metrics_cell s = Inr t
           \<and> precision t = Num 0 \<and> recall t = Num 0 \<and> f1 t = Num 0
           \<and> stderr t = stderr s \<and> stdout t = stdout s"
proof -
  obtain ws where "precision_recall_fscore_support (y_test s) (y_pred s) = Inr (Num 0, Num 0, Num 0, ws)"
    using prf_no_anomaly [OF assms(2-4)] by blast
  then have "metrics_cell s = Inr (s\<lparr>precision := Num 0, recall := Num 0, f1 := Num 0\<rparr>)"
    using prefix_ignores_warnings [OF assms(1)]
    by (simp add: metrics_cell_def foldl_warn_ignored)
  then show ?thesis by simp
qed

lemma quiet_table_wf: "wf_dataset quiet_table"
  by (simp add: wf_dataset_def quiet_table_def)

lemma quiet_feature_diff_df:
  "feature_diff_df_of example_library quiet_table = [(''nadas'', Num 3), (''announcements'', Num 2)]"
  by (simp add: feature_diff_df_of_def feature_diffs_map [OF quiet_table_wf])
     (simp add: quiet_table_def column_diff_def mean_def anomaly_mean_of_def rows_where_def
        feature_diff_def example_series_sum float_eval sort_values_abs_desc_def abs_rank_def
        arrange_def example_tie_order upt_rec [of _ 2])

lemma example_grid_search:
  "grid_search_fit example_library pipeline param_grid 5 F1 X y =
     Inr (\<lparr>svm_C = 1, svm_gamma = Scale, svm_kernel = Linear\<rparr>, 1)"
  by (simp add: grid_search_fit_def param_grid_def parameter_grid_def mean_test_score_def
      example_library_def average_def best_candidate_def upt_rec [of _ 5])

lemma quiet_selection:
  "\<exists>s. run_cells [imports_cell without_explainers, feature_analysis_cell example_library, select_cell]
          (fresh_notebook quiet_table) = Inr (s :: real notebook)
       \<and> X_selected s = X_columns quiet_table \<and> df s = quiet_table
       \<and> stderr s = [] \<and> best_model s = None"
proof -
  have sel: "select_columns (X_columns quiet_table) [''nadas'', ''announcements''] = Inr (X_columns quiet_table)"
    by (simp add: quiet_table_def)
  show ?thesis
    by (simp add: imports_cell_def feature_analysis_cell_def select_cell_def quiet_feature_diff_df
        head_rows_def without_explainers_def emit_def fresh_notebook_def Let_def sel
        del: select_columns.simps)
qed

lemma quiet_split:
  assumes "X_selected s = X_columns quiet_table" "df s = quiet_table" "stderr s = []"
  shows "\<exists>t. run_cells [split_cell example_library, grid_search_cell example_library,
            predict_cell example_library] s = Inr t
          \<and> y_test t = [0, 0] \<and> y_pred t = [1, 0] \<and> stderr t = []"
proof -
  have rows: "rows_of (X_columns quiet_table) (length (y_labels quiet_table)) = [[3, 6], [2, 2], [5, 12], [0, 4]]"
    by (simp add: quiet_table_def rows_of_def upt_rec [of _ 4])
  have split: "train_test_split example_library [[3, 6], [2, 2], [5, 12], [0, 4]] (y_labels quiet_table)
      (3 / 10) 42 (y_labels quiet_table)
      = Inr \<lparr>train_rows = [[3, 6], [5, 12]], test_rows = [[2, 2], [0, 4]], train_labels = [1, 1],
             test_labels = [0, 0], train_positions = [0, 2], test_positions = [1, 3]\<rparr>"
    by (simp add: train_test_split_def quiet_table_def example_library_def take_rows_def upt_rec [of _ 4])
  have pred: "predict example_library 1 [[2, 2], [0, 4]] = [1, 0]"
    by (simp add: example_library_def)
  show ?thesis
    by (simp add: split_cell_def grid_search_cell_def example_grid_search predict_cell_def
        assms rows split pred Let_def)
qed

theorem zero_anomaly_metrics_witness:
  "\<exists>s t. run_cells [imports_cell without_explainers, feature_analysis_cell example_library, select_cell,
            split_cell example_library, grid_search_cell example_library,
            predict_cell example_library] (fresh_notebook quiet_table) = Inr s
         \<and> y_test s = [0, 0] \<and> y_pred s = [1, 0]
         \<and> metrics_cell s = Inr t
         \<and> precision t = Num 0 \<and> recall t = Num 0 \<and> f1 t = Num 0 \<and> stderr t = []"
proof -
  let ?head = "[imports_cell without_explainers, feature_analysis_cell example_library, select_cell]
                 :: (real notebook \<Rightarrow> py_error + real notebook) list"
  let ?tail = "[split_cell example_library, grid_search_cell example_library,
                predict_cell example_library]"
  obtain s1 :: "real notebook" where s1: "run_cells ?head (fresh_notebook quiet_table) = Inr s1"
      "X_selected s1 = X_columns quiet_table" "df s1 = quiet_table" "stderr s1 = []"
    using quiet_selection by blast
  obtain s where s: "run_cells ?tail s1 = Inr s" "y_test s = [0, 0]" "y_pred s = [1, 0]" "stderr s = []"
    using quiet_split [OF s1(2-4)] by blast
  have run: "run_cells (?head @ ?tail) (fresh_notebook quiet_table) = Inr s"
    unfolding run_cells_append s1(1) by (simp add: s(1) del: run_cells.simps)
  then have run': "run_cells [imports_cell without_explainers, feature_analysis_cell example_library, select_cell,
            split_cell example_library, grid_search_cell example_library,
            predict_cell example_library] (fresh_notebook quiet_table) = Inr s"
    by (simp del: run_cells.simps)
  have h2: "set (y_test s) = {0}" and h3: "set (y_pred s) \<subseteq> {0, 1}"
    and h4: "length (y_pred s) = length (y_test s)"
    by (simp_all add: s)
  from zero_anomaly_metrics [OF run' h2 h3 h4] obtain t where
    "metrics_cell s = Inr t" "precision t = Num 0" "recall t = Num 0" "f1 t = Num 0"
    "stderr t = stderr s"
    by blast
  then show ?thesis
    using run' s by (intro exI [of _ s] exI [of _ t]) (simp del: run_cells.simps)
qed

theorem zero_anomaly_counterexample:
  "outcome reported_metrics
     (run_cells [imports_cell without_explainers, metrics_cell] no_anomaly_state)
   = Inr (Num 0, Num 0, Num 0, [])"
  by (simp add: imports_cell_def without_explainers_def emit_def no_anomaly_state_def
      fresh_notebook_def Let_def
      metrics_cell_def precision_recall_fscore_support_def count_where_def prf_divide_def
      warn_def reported_metrics_def)

section \<open>Persistence and the optional explainers\<close>

lemma save_cell_files:
  "save_cell lib s = Inr t \<Longrightarrow>
   \<exists>m. best_model s = Some m
     \<and> files t = (files s)(dump_path \<mapsto> joblib_dumps lib m, to_csv_path \<mapsto> to_csv lib (top_features s))"
  by (auto simp: save_cell_def emit_def Let_def split: option.splits)

lemma path_facts:
  "load_path = dump_path" "read_csv_path = to_csv_path" "dump_path \<noteq> to_csv_path"
  "''bgp_anomaly_svm_model.pkl'' \<noteq> dump_path" "''bgp_anomaly_svm_model.pkl'' \<noteq> to_csv_path"
  "''bgp_anomaly_selected_features.csv'' \<noteq> dump_path"
  "''bgp_anomaly_selected_features.csv'' \<noteq> to_csv_path"
  by (simp_all add: load_path_def dump_path_def read_csv_path_def to_csv_path_def)

lemma run_notebook_files:
  assumes "run_notebook lib e s0 = Inr u"
  shows "\<exists>b c. files u = (files s0)(dump_path \<mapsto> b, to_csv_path \<mapsto> c)"
proof -
  from assms obtain s1 s2 s3 s4 s5 s6 s7 s8 s9 s10 s11 s12 where steps:
    "imports_cell e s0 = Inr s1" "feature_analysis_cell lib s1 = Inr s2" "select_cell s2 = Inr s3"
    "split_cell lib s3 = Inr s4" "grid_search_cell lib s4 = Inr s5" "predict_cell lib s5 = Inr s6"
    "metrics_cell s6 = Inr s7" "pca_cell lib s7 = Inr s8" "pca_split_cell lib s8 = Inr s9"
    "shap_cell lib s9 = Inr s10" "lime_cell lib s10 = Inr s11" "save_cell lib s11 = Inr s12"
    "load_cell lib s12 = Inr u"
    unfolding run_notebook_def run_cells_Cons_Inr by auto
  have "files s11 = files s0"
    using steps(1-11) imports_cell_keeps feature_analysis_cell_keeps select_cell_keeps
      split_cell_keeps grid_search_cell_keeps predict_cell_keeps metrics_cell_keeps
      pca_cell_keeps pca_split_cell_keeps shap_cell_keeps lime_cell_keeps
    by metis
  moreover have "files u = files s12"
    using steps(13) load_cell_keeps by blast
  ultimately show ?thesis
    using save_cell_files [OF steps(12)] by auto
qed

text \<open>
  Claim C9. The persistence cell writes the model to \<^verbatim>\<open>svm_nimda_1min_model.pkl\<close> and the
  feature list to \<^verbatim>\<open>nimda_1_bgp_anomaly_selected_features.csv\<close>; the reload cell reads
  these two paths and no other, and after the persistence cell it decodes exactly the
  bytes written. The two messages name \<^verbatim>\<open>bgp_anomaly_svm_model.pkl\<close> and
  \<^verbatim>\<open>bgp_anomaly_selected_features.csv\<close>, which are neither of the paths written: a
  whole run of the notebook adds the two written paths to the files on disk and nothing
  else.
\<close>

theorem persisted_paths:
  "dump_path = ''svm_nimda_1min_model.pkl''
   \<and> to_csv_path = ''nimda_1_bgp_anomaly_selected_features.csv''
   \<and> load_path = dump_path \<and> read_csv_path = to_csv_path
   \<and> model_message = ''Model saved to '' @ [CHR 0x27] @ ''bgp_anomaly_svm_model.pkl'' @ [CHR 0x27]
   \<and> features_message =
       ''Selected features saved to '' @ [CHR 0x27] @ ''bgp_anomaly_selected_features.csv'' @ [CHR 0x27]
   \<and> ''bgp_anomaly_svm_model.pkl'' \<notin> {dump_path, to_csv_path}
   \<and> ''bgp_anomaly_selected_features.csv'' \<notin> {dump_path, to_csv_path}
   \<and> (\<forall>s m. best_model s = Some m \<longrightarrow>
         (\<exists>t. save_cell lib s = Inr t
            \<and> stdout t = stdout s @ [model_message, features_message]
            \<and> files t load_path = Some (joblib_dumps lib m)
            \<and> files t read_csv_path = Some (to_csv lib (top_features s))
            \<and> dom (files t) = dom (files s) \<union> {dump_path, to_csv_path}
            \<and> outcome loaded (load_cell lib t) =
                (case joblib_loads lib (joblib_dumps lib m) of
                   Inl e \<Rightarrow> Inl e
                 | Inr m' \<Rightarrow>
                     (case read_csv_Feature lib (to_csv lib (top_features s)) of
                        Inl e \<Rightarrow> Inl e
                      | Inr fs \<Rightarrow> Inr (Some m', fs)))))
   \<and> (\<forall>s fs. fs load_path = files s load_path \<and> fs read_csv_path = files s read_csv_path
         \<longrightarrow> outcome loaded (load_cell lib (s\<lparr>files := fs\<rparr>)) = outcome loaded (load_cell lib s))
   \<and> (\<forall>e s0 u. run_notebook lib e s0 = Inr u \<longrightarrow>
         dom (files u) = dom (files s0) \<union> {dump_path, to_csv_path})"
proof -
  have save: "\<exists>t. save_cell lib s = Inr t
            \<and> stdout t = stdout s @ [model_message, features_message]
            \<and> files t load_path = Some (joblib_dumps lib m)
            \<and> files t read_csv_path = Some (to_csv lib (top_features s))
            \<and> dom (files t) = dom (files s) \<union> {dump_path, to_csv_path}
            \<and> outcome loaded (load_cell lib t) =
                (case joblib_loads lib (joblib_dumps lib m) of
                   Inl e \<Rightarrow> Inl e
                 | Inr m' \<Rightarrow>
                     (case read_csv_Feature lib (to_csv lib (top_features s)) of
                        Inl e \<Rightarrow> Inl e
                      | Inr fs \<Rightarrow> Inr (Some m', fs)))"
    if "best_model s = Some m" for s :: "'a notebook" and m
    using that path_facts(1-3)
    by (auto simp: save_cell_def load_cell_def emit_def loaded_def Let_def split: sum.splits)
  have load: "outcome loaded (load_cell lib (s\<lparr>files := fs\<rparr>)) = outcome loaded (load_cell lib s)"
    if "fs load_path = files s load_path" "fs read_csv_path = files s read_csv_path"
    for s :: "'a notebook" and fs
    using that by (auto simp: load_cell_def emit_def loaded_def split: sum.splits option.splits)
  have run: "dom (files u) = dom (files s0) \<union> {dump_path, to_csv_path}"
    if "run_notebook lib e s0 = Inr u" for e s0 u
    using run_notebook_files [OF that] by auto
  show ?thesis
    using save load run path_facts
    by (simp add: dump_path_def to_csv_path_def model_message_def features_message_def)
qed

lemma imports_cell_flag:
  "imports_cell e s = Inr t \<Longrightarrow> EXPLAINABILITY_AVAILABLE t = (shap_installed e \<and> lime_installed e)"
  by (auto simp: imports_cell_def emit_def Let_def split: if_splits)

lemma save_cell_stdout:
  "save_cell lib (u\<lparr>stdout := out\<rparr>) =
     (case save_cell lib u of
        Inl e \<Rightarrow> Inl e
      | Inr t \<Rightarrow> Inr (t\<lparr>stdout := out @ [model_message, features_message]\<rparr>))"
  by (cases "best_model u") (simp_all add: save_cell_def emit_def Let_def)

lemma load_cell_silenced:
  "outcome silenced (load_cell lib (t\<lparr>stdout := out\<rparr>)) = outcome silenced (load_cell lib t)"
  by (simp add: load_cell_def emit_def silenced_def split: option.split sum.split)

lemma run_cells_pair:
  "run_cells [c, d] s = (case c s of Inl e \<Rightarrow> Inl e | Inr t \<Rightarrow> d t)"
  by (simp split: sum.split)

lemma save_load_silenced:
  "outcome silenced (run_cells [save_cell lib, load_cell lib] (u\<lparr>stdout := out\<rparr>))
     = outcome silenced (run_cells [save_cell lib, load_cell lib] u)"
proof (cases "save_cell lib u")
  case (Inl e)
  then show ?thesis
    unfolding run_cells_pair by (simp add: save_cell_stdout)
next
  case (Inr t)
  have "outcome silenced (load_cell lib (t\<lparr>stdout := out @ [model_message, features_message]\<rparr>))
      = outcome silenced (load_cell lib t)"
    by (rule load_cell_silenced)
  then show ?thesis
    unfolding run_cells_pair by (simp add: save_cell_stdout Inr)
qed

text \<open>
  Claim C8. When SHAP or LIME cannot be imported, the import cell catches the failure,
  clears the availability flag and prints a warning; with the flag cleared the SHAP and
  LIME cells raise nothing and only print their message; and the whole run ends as the
  notebook without the two explainer cells does, up to the printed text: the same error,
  or the same final variables and files.
\<close>

theorem explainer_skipped_when_unavailable:
  assumes "\<not> (shap_installed e \<and> lime_installed e)"
  shows "(\<exists>t. imports_cell e s = Inr t \<and> \<not> EXPLAINABILITY_AVAILABLE t
            \<and> stdout t = stdout s @
                [''Warning: SHAP and/or LIME libraries not installed. Explainability sections will be skipped.'',
                 ''Run 'pip install shap lime' to install them.''])
       \<and> (\<forall>u. \<not> EXPLAINABILITY_AVAILABLE u \<longrightarrow>
             run_cells [shap_cell lib, lime_cell lib] u =
               Inr (u\<lparr>stdout := stdout u @
                     [''SHAP analysis skipped because libraries are not installed.'',
                      ''LIME analysis skipped because libraries are not installed.'']\<rparr>))
       \<and> outcome silenced (run_notebook lib e s)
           = outcome silenced
               (run_cells [imports_cell e, feature_analysis_cell lib, select_cell, split_cell lib,
                  grid_search_cell lib, predict_cell lib, metrics_cell, pca_cell lib,
                  pca_split_cell lib, save_cell lib, load_cell lib] s)"
proof -
  let ?before = "[imports_cell e, feature_analysis_cell lib, select_cell, split_cell lib,
                  grid_search_cell lib, predict_cell lib, metrics_cell, pca_cell lib,
                  pca_split_cell lib]"
  have first: "\<exists>t. imports_cell e s = Inr t \<and> \<not> EXPLAINABILITY_AVAILABLE t
            \<and> stdout t = stdout s @
                [''Warning: SHAP and/or LIME libraries not installed. Explainability sections will be skipped.'',
                 ''Run 'pip install shap lime' to install them.'']"
    using assms by (auto simp: imports_cell_def emit_def Let_def)
  have skip: "run_cells [shap_cell lib, lime_cell lib] u =
               Inr (u\<lparr>stdout := stdout u @
                     [''SHAP analysis skipped because libraries are not installed.'',
                      ''LIME analysis skipped because libraries are not installed.'']\<rparr>)"
    if "\<not> EXPLAINABILITY_AVAILABLE u" for u :: "'a notebook"
    using that by (simp add: shap_cell_def lime_cell_def emit_def)
  have flag: "\<not> EXPLAINABILITY_AVAILABLE u" if "run_cells ?before s = Inr u" for u
  proof -
    from that obtain s1 s2 s3 s4 s5 s6 s7 s8 where steps:
      "imports_cell e s = Inr s1" "feature_analysis_cell lib s1 = Inr s2" "select_cell s2 = Inr s3"
      "split_cell lib s3 = Inr s4" "grid_search_cell lib s4 = Inr s5" "predict_cell lib s5 = Inr s6"
      "metrics_cell s6 = Inr s7" "pca_cell lib s7 = Inr s8" "pca_split_cell lib s8 = Inr u"
      unfolding run_cells_Cons_Inr by auto
    have "\<not> EXPLAINABILITY_AVAILABLE s1"
      using imports_cell_flag [OF steps(1)] assms by simp
    then show ?thesis
      using steps(2-9) feature_analysis_cell_keeps select_cell_keeps
        split_cell_keeps grid_search_cell_keeps predict_cell_keeps metrics_cell_keeps
        pca_cell_keeps pca_split_cell_keeps
      by metis
  qed
  have "outcome silenced (run_cells (?before @ [shap_cell lib, lime_cell lib] @ [save_cell lib, load_cell lib]) s)
      = outcome silenced (run_cells (?before @ [save_cell lib, load_cell lib]) s)"
  proof (cases "run_cells ?before s")
    case (Inl err)
    then show ?thesis
      unfolding run_cells_append by simp
  next
    case (Inr u)
    show ?thesis
      unfolding run_cells_append Inr
      by (simp add: skip [OF flag [OF Inr]] save_load_silenced del: run_cells.simps)
  qed
  then have "outcome silenced (run_notebook lib e s)
           = outcome silenced
               (run_cells [imports_cell e, feature_analysis_cell lib, select_cell, split_cell lib,
                  grid_search_cell lib, predict_cell lib, metrics_cell, pca_cell lib,
                  pca_split_cell lib, save_cell lib, load_cell lib] s)"
    by (simp add: run_notebook_def del: run_cells.simps)
  then show ?thesis
    using first skip by blast
qed

section \<open>The two splits and the search\<close>

lemma train_test_split_Inr:
  "train_test_split lib X y ts seed strat = Inr r \<longleftrightarrow>
     length X = length y \<and>
     (\<exists>train test. split_indices lib X ts seed strat = Inr (train, test)
        \<and> list_all (\<lambda>i. i < length X) train \<and> list_all (\<lambda>i. i < length X) test
        \<and> r = \<lparr>train_rows = map (\<lambda>i. X ! i) train, test_rows = map (\<lambda>i. X ! i) test,
                train_labels = map (\<lambda>i. y ! i) train, test_labels = map (\<lambda>i. y ! i) test,
                train_positions = train, test_positions = test\<rparr>)"
proof (cases "length X = length y")
  case False
  then show ?thesis by (simp add: train_test_split_def)
next
  case len: True
  show ?thesis
  proof (cases "split_indices lib X ts seed strat")
    case (Inl e)
    then show ?thesis by (simp add: train_test_split_def len)
  next
    case (Inr p)
    obtain train test where p: "p = (train, test)" by (cases p)
    show ?thesis
      by (cases "list_all (\<lambda>i. i < length y) train"; cases "list_all (\<lambda>i. i < length y) test")
         (auto simp: train_test_split_def len Inr p take_rows_def)
  qed
qed

lemma length_rows_of: "length (rows_of cols n) = n"
  by (simp add: rows_of_def)

text \<open>
  Claim C10. Provided the library chooses the positions of a stratified split from the
  number of rows, the test fraction, the seed and the label vector alone, the split of
  the projected matrix succeeds whenever the primary split and the projection did, and
  it yields the same train positions and the same test positions as the primary split:
  the 2-D training rows are the rows of the projection at the primary train positions,
  with the same labels.
\<close>

theorem pca_split_same_partition:
  assumes contract: "\<forall>X X' ts seed strat. length X = length X' \<longrightarrow>
             split_indices lib X ts seed strat = split_indices lib X' ts seed strat"
    and primary: "split_cell lib s = Inr s1"
    and between: "run_cells [grid_search_cell lib, predict_cell lib, metrics_cell, pca_cell lib] s1 = Inr s2"
  shows "\<exists>s3. pca_split_cell lib s2 = Inr s3
           \<and> train_index_pca s3 = train_index s1 \<and> test_index_pca s3 = test_index s1
           \<and> y_train_pca s3 = y_train s1 \<and> y_test_pca s3 = y_test s1
           \<and> take_rows (X_pca s2) (train_index s1) = Inr (X_train_pca s3)
           \<and> take_rows (X_pca s2) (test_index s1) = Inr (X_test_pca s3)
           \<and> take_rows (rows_of (X_selected s) (length (y_labels (df s)))) (train_index s1) = Inr (X_train s1)
           \<and> take_rows (rows_of (X_selected s) (length (y_labels (df s)))) (test_index s1) = Inr (X_test s1)"
proof -
  let ?y = "y_labels (df s)"
  let ?R = "rows_of (X_selected s) (length ?y)"
  from primary obtain r where r: "train_test_split lib ?R ?y (3 / 10) 42 ?y = Inr r"
    and s1: "s1 = s\<lparr>X_train := train_rows r, X_test := test_rows r,
                    y_train := train_labels r, y_test := test_labels r,
                    train_index := train_positions r, test_index := test_positions r\<rparr>"
    by (auto simp: split_cell_def Let_def split: sum.splits)
  from r obtain train test where idx: "split_indices lib ?R (3 / 10) 42 ?y = Inr (train, test)"
    and ok: "list_all (\<lambda>i. i < length ?y) train" "list_all (\<lambda>i. i < length ?y) test"
    and r_def: "r = \<lparr>train_rows = map (\<lambda>i. ?R ! i) train, test_rows = map (\<lambda>i. ?R ! i) test,
                train_labels = map (\<lambda>i. ?y ! i) train, test_labels = map (\<lambda>i. ?y ! i) test,
                train_positions = train, test_positions = test\<rparr>"
    unfolding train_test_split_Inr by (auto simp: length_rows_of)
  from between obtain t1 t2 t3 where steps:
    "grid_search_cell lib s1 = Inr t1" "predict_cell lib t1 = Inr t2" "metrics_cell t2 = Inr t3"
    "pca_cell lib t3 = Inr s2"
    unfolding run_cells_Cons_Inr by auto
  have df3: "df t3 = df s1"
    using steps(1-3) grid_search_cell_keeps predict_cell_keeps metrics_cell_keeps by metis
  have df2: "df s2 = df s"
    using pca_cell_keeps [OF steps(4)] df3 s1 by simp
  have len: "length (X_pca s2) = length ?y"
    using pca_cell_keeps [OF steps(4)] df3 s1 by simp
  have same: "split_indices lib (X_pca s2) (3 / 10) 42 ?y = Inr (train, test)"
    using contract len idx by (metis length_rows_of)
  have r2: "train_test_split lib (X_pca s2) ?y (3 / 10) 42 ?y =
      Inr \<lparr>train_rows = map (\<lambda>i. X_pca s2 ! i) train, test_rows = map (\<lambda>i. X_pca s2 ! i) test,
           train_labels = map (\<lambda>i. ?y ! i) train, test_labels = map (\<lambda>i. ?y ! i) test,
           train_positions = train, test_positions = test\<rparr>"
    unfolding train_test_split_Inr using same ok len by simp
  have "pca_split_cell lib s2 =
      Inr (s2\<lparr>X_train_pca := map (\<lambda>i. X_pca s2 ! i) train, X_test_pca := map (\<lambda>i. X_pca s2 ! i) test,
              y_train_pca := map (\<lambda>i. ?y ! i) train, y_test_pca := map (\<lambda>i. ?y ! i) test,
              train_index_pca := train, test_index_pca := test\<rparr>)"
    by (simp add: pca_split_cell_def df2 r2 Let_def)
  then show ?thesis
    using s1 r_def ok len by (simp add: take_rows_def length_rows_of)
qed

lemma best_candidate_in: "best_candidate c cs \<in> set (c # cs)"
  unfolding best_candidate_def
  by (induction cs arbitrary: c) auto

lemma best_candidate_max: "x \<in> set (c # cs) \<Longrightarrow> snd x \<le> snd (best_candidate c cs)"
  unfolding best_candidate_def
proof (induction cs arbitrary: c x)
  case Nil
  then show ?case by simp
next
  case (Cons d cs)
  let ?c' = "if snd c < snd d then d else c"
  have keep: "snd c \<le> snd ?c'" "snd d \<le> snd ?c'"
    by auto
  have mono: "snd ?c' \<le> snd (foldl (\<lambda>best x. if snd best < snd x then x else best) ?c' cs)"
    using Cons.IH [of ?c' ?c'] by simp
  show ?case
  proof (cases "x \<in> set cs")
    case True
    then show ?thesis
      using Cons.IH [of x ?c'] by simp
  next
    case False
    then have "x = c \<or> x = d"
      using Cons.prems by auto
    then show ?thesis
      using keep mono by auto
  qed
qed

lemma param_grid_length: "length param_grid = 48"
  by (simp add: param_grid_def parameter_grid_def)

lemma parameter_grid_set:
  "set (parameter_grid cs gs ks) =
     {\<lparr>svm_C = c, svm_gamma = g, svm_kernel = k\<rparr> | c g k. c \<in> set cs \<and> g \<in> set gs \<and> k \<in> set ks}"
  unfolding parameter_grid_def by auto

lemma param_grid_set:
  "set param_grid =
     {\<lparr>svm_C = c, svm_gamma = g, svm_kernel = k\<rparr> | c g k.
        c \<in> {1 / 10, 1, 10, 100} \<and> g \<in> {Scale, Auto, Gamma (1 / 10), Gamma (1 / 100)}
        \<and> k \<in> {Rbf, Linear, Poly}}"
  unfolding param_grid_def parameter_grid_set by simp

lemma grid_search_fit_Inr:
  assumes "grid_search_fit lib pipe grid cv sc X y = Inr (p, m)"
  shows "p \<in> set grid \<and> refit lib pipe p X y = Inr m
       \<and> (\<forall>q \<in> set grid. mean_test_score lib pipe sc cv X y q \<le> mean_test_score lib pipe sc cv X y p)"
proof (cases grid)
  case Nil
  then show ?thesis
    using assms by (simp add: grid_search_fit_def)
next
  case (Cons g gs)
  let ?score = "\<lambda>q. (q, mean_test_score lib pipe sc cv X y q)"
  let ?best = "best_candidate (?score g) (map ?score gs)"
  have fit: "refit lib pipe (fst ?best) X y = Inr m" and p: "p = fst ?best"
    using assms Cons by (auto simp: grid_search_fit_def Let_def split: sum.splits)
  have "?best \<in> set (map ?score grid)"
    using best_candidate_in [of "?score g" "map ?score gs"] Cons by simp
  then have mem: "p \<in> set grid" and sc: "snd ?best = mean_test_score lib pipe sc cv X y p"
    using p by auto
  have "mean_test_score lib pipe sc cv X y q \<le> mean_test_score lib pipe sc cv X y p"
    if "q \<in> set grid" for q
  proof -
    have "?score q \<in> set (?score g # map ?score gs)"
      using that Cons by auto
    from best_candidate_max [OF this] show ?thesis
      using sc by simp
  qed
  then show ?thesis
    using mem fit p by blast
qed

text \<open>
  Claim C3. The grid has the 48 combinations of four values of \<open>C\<close>, four of \<open>gamma\<close>
  and three kernels; the pipeline scales, then classifies; the split cell holds out the
  test rows by one call with test fraction 0.3, seed 42 and stratification by the label;
  the search scores every candidate by the mean of its 5 fold scores under F1 on the
  training rows, keeps a candidate of the grid that no other outscores and refits it on
  the training rows; and its result is the same for two states with the same training
  rows, whatever their test rows are.
\<close>

theorem model_trainer:
  "length param_grid = 48
   \<and> set param_grid =
       {\<lparr>svm_C = c, svm_gamma = g, svm_kernel = k\<rparr> | c g k.
          c \<in> {1 / 10, 1, 10, 100} \<and> g \<in> {Scale, Auto, Gamma (1 / 10), Gamma (1 / 100)}
          \<and> k \<in> {Rbf, Linear, Poly}}
   \<and> map snd pipeline = [StandardScaler, SVC True]
   \<and> (\<forall>s s1. split_cell lib s = Inr s1 \<longrightarrow>
         (\<exists>r. train_test_split lib (rows_of (X_selected s) (length (y_labels (df s))))
                 (y_labels (df s)) (3 / 10) 42 (y_labels (df s)) = Inr r
             \<and> X_train s1 = train_rows r \<and> y_train s1 = train_labels r
             \<and> X_test s1 = test_rows r \<and> y_test s1 = test_labels r))
   \<and> (\<forall>s t. grid_search_cell lib s = Inr t \<longrightarrow>
         (\<exists>p m. best_params t = Some p \<and> best_model t = Some m \<and> p \<in> set param_grid
            \<and> refit lib pipeline p (X_train s) (y_train s) = Inr m
            \<and> (\<forall>q \<in> set param_grid.
                  average (map (\<lambda>k. fold_score lib pipeline F1 q 5 k (X_train s) (y_train s)) [0..<5])
                  \<le> average (map (\<lambda>k. fold_score lib pipeline F1 p 5 k (X_train s) (y_train s)) [0..<5]))))
   \<and> (\<forall>s s'. X_train s = X_train s' \<and> y_train s = y_train s' \<longrightarrow>
         outcome searched (grid_search_cell lib s) = outcome searched (grid_search_cell lib s'))"
proof -
  have split: "\<exists>r. train_test_split lib (rows_of (X_selected s) (length (y_labels (df s))))
                 (y_labels (df s)) (3 / 10) 42 (y_labels (df s)) = Inr r
             \<and> X_train s1 = train_rows r \<and> y_train s1 = train_labels r
             \<and> X_test s1 = test_rows r \<and> y_test s1 = test_labels r"
    if "split_cell lib s = Inr s1" for s s1 :: "'a notebook"
    using that by (auto simp: split_cell_def Let_def split: sum.splits)
  have search: "\<exists>p m. best_params t = Some p \<and> best_model t = Some m \<and> p \<in> set param_grid
            \<and> refit lib pipeline p (X_train s) (y_train s) = Inr m
            \<and> (\<forall>q \<in> set param_grid.
                  average (map (\<lambda>k. fold_score lib pipeline F1 q 5 k (X_train s) (y_train s)) [0..<5])
                  \<le> average (map (\<lambda>k. fold_score lib pipeline F1 p 5 k (X_train s) (y_train s)) [0..<5]))"
    if "grid_search_cell lib s = Inr t" for s t :: "'a notebook"
  proof -
    from that obtain p m where
      fit: "grid_search_fit lib pipeline param_grid 5 F1 (X_train s) (y_train s) = Inr (p, m)"
      and t: "t = s\<lparr>best_params := Some p, best_model := Some m\<rparr>"
      by (auto simp: grid_search_cell_def split: sum.splits)
    from grid_search_fit_Inr [OF fit] show ?thesis
      unfolding mean_test_score_def using t by auto
  qed
  have indep: "outcome searched (grid_search_cell lib s) = outcome searched (grid_search_cell lib s')"
    if "X_train s = X_train s'" "y_train s = y_train s'" for s s' :: "'a notebook"
    using that
    by (cases "grid_search_fit lib pipeline param_grid 5 F1 (X_train s') (y_train s')")
       (auto simp: grid_search_cell_def searched_def)
  have pipe: "map snd pipeline = [StandardScaler, SVC True]"
    by (simp add: pipeline_def)
  have "\<forall>s s1. split_cell lib s = Inr s1 \<longrightarrow>
         (\<exists>r. train_test_split lib (rows_of (X_selected s) (length (y_labels (df s))))
                 (y_labels (df s)) (3 / 10) 42 (y_labels (df s)) = Inr r
             \<and> X_train s1 = train_rows r \<and> y_train s1 = train_labels r
             \<and> X_test s1 = test_rows r \<and> y_test s1 = test_labels r)"
    using split by blast
  moreover have "\<forall>s t. grid_search_cell lib s = Inr t \<longrightarrow>
         (\<exists>p m. best_params t = Some p \<and> best_model t = Some m \<and> p \<in> set param_grid
            \<and> refit lib pipeline p (X_train s) (y_train s) = Inr m
            \<and> (\<forall>q \<in> set param_grid.
                  average (map (\<lambda>k. fold_score lib pipeline F1 q 5 k (X_train s) (y_train s)) [0..<5])
                  \<le> average (map (\<lambda>k. fold_score lib pipeline F1 p 5 k (X_train s) (y_train s)) [0..<5])))"
    using search by blast
  moreover have "\<forall>s s'. X_train s = X_train s' \<and> y_train s = y_train s' \<longrightarrow>
         outcome searched (grid_search_cell lib s) = outcome searched (grid_search_cell lib s')"
    using indep by blast
  ultimately show ?thesis
    using param_grid_length param_grid_set pipe by (intro conjI)
qed

section \<open>A run of the notebook on the example\<close>

lemma quiet_select_columns:
  "select_columns (X_columns quiet_table) [''nadas'', ''announcements''] = Inr (X_columns quiet_table)"
  by (simp add: quiet_table_def)

lemma quiet_rows:
  "rows_of (X_columns quiet_table) (length (y_labels quiet_table)) = [[3, 6], [2, 2], [5, 12], [0, 4]]"
  by (simp add: quiet_table_def rows_of_def upt_rec [of _ 4])

lemma quiet_imports_cell:
  "imports_cell without_explainers s =
     Inr (s\<lparr>EXPLAINABILITY_AVAILABLE := False,
            stdout := stdout s @
              [''Warning: SHAP and/or LIME libraries not installed. Explainability sections will be skipped.'',
               ''Run 'pip install shap lime' to install them.''],
            warnings_ignored := True\<rparr>)"
  by (simp add: imports_cell_def without_explainers_def emit_def Let_def)

lemma quiet_feature_analysis_cell:
  "df s = quiet_table \<Longrightarrow>
   feature_analysis_cell example_library s =
     Inr (s\<lparr>feature_diff_df := [(''nadas'', Num 3), (''announcements'', Num 2)]\<rparr>)"
  by (simp add: feature_analysis_cell_def quiet_feature_diff_df)

lemma quiet_select_cell:
  "df s = quiet_table \<Longrightarrow> feature_diff_df s = [(''nadas'', Num 3), (''announcements'', Num 2)] \<Longrightarrow>
   select_cell s = Inr (s\<lparr>top_features := [''nadas'', ''announcements''],
                          X_selected := X_columns quiet_table\<rparr>)"
  by (simp add: select_cell_def head_rows_def quiet_select_columns Let_def del: select_columns.simps)

lemma quiet_split_cell:
  assumes "df s = quiet_table" "X_selected s = X_columns quiet_table"
  shows "split_cell example_library s =
     Inr (s\<lparr>X_train := [[3, 6], [5, 12]], X_test := [[2, 2], [0, 4]],
            y_train := [1, 1], y_test := [0, 0], train_index := [0, 2], test_index := [1, 3]\<rparr>)"
proof -
  have "train_test_split example_library [[3, 6], [2, 2], [5, 12], [0, 4]] (y_labels quiet_table)
      (3 / 10) 42 (y_labels quiet_table)
      = Inr \<lparr>train_rows = [[3, 6], [5, 12]], test_rows = [[2, 2], [0, 4]], train_labels = [1, 1],
             test_labels = [0, 0], train_positions = [0, 2], test_positions = [1, 3]\<rparr>"
    by (simp add: train_test_split_def quiet_table_def example_library_def take_rows_def upt_rec [of _ 4])
  then show ?thesis
    by (simp add: split_cell_def assms quiet_rows Let_def)
qed

lemma example_grid_search_cell:
  "grid_search_cell example_library s =
     Inr (s\<lparr>best_params := Some \<lparr>svm_C = 1, svm_gamma = Scale, svm_kernel = Linear\<rparr>,
            best_model := Some 1\<rparr>)"
  by (simp add: grid_search_cell_def example_grid_search)

lemma quiet_predict_cell:
  "best_model s = Some 1 \<Longrightarrow> X_test s = [[2, 2], [0, 4]] \<Longrightarrow>
   predict_cell example_library s = Inr (s\<lparr>y_pred := [1, 0]\<rparr>)"
  by (simp add: predict_cell_def example_library_def)

lemma quiet_metrics_cell:
  "y_test s = [0, 0] \<Longrightarrow> y_pred s = [1, 0] \<Longrightarrow> warnings_ignored s \<Longrightarrow>
   metrics_cell s = Inr (s\<lparr>precision := Num 0, recall := Num 0, f1 := Num 0\<rparr>)"
  by (simp add: metrics_cell_def precision_recall_fscore_support_def count_where_def
      prf_divide_def warn_def)

lemma quiet_pca_cell:
  "df s = quiet_table \<Longrightarrow> X_selected s = X_columns quiet_table \<Longrightarrow>
   pca_cell example_library s = Inr (s\<lparr>X_pca := [[3, 6], [2, 2], [5, 12], [0, 4]]\<rparr>)"
  by (simp add: pca_cell_def quiet_rows Let_def) (simp add: example_library_def quiet_table_def)

lemma quiet_pca_split_cell:
  assumes "df s = quiet_table" "X_pca s = [[3, 6], [2, 2], [5, 12], [0, 4]]"
  shows "pca_split_cell example_library s =
     Inr (s\<lparr>X_train_pca := [[3, 6], [5, 12]], X_test_pca := [[2, 2], [0, 4]],
            y_train_pca := [1, 1], y_test_pca := [0, 0],
            train_index_pca := [0, 2], test_index_pca := [1, 3]\<rparr>)"
proof -
  have "train_test_split example_library [[3, 6], [2, 2], [5, 12], [0, 4]] (y_labels quiet_table)
      (3 / 10) 42 (y_labels quiet_table)
      = Inr \<lparr>train_rows = [[3, 6], [5, 12]], test_rows = [[2, 2], [0, 4]], train_labels = [1, 1],
             test_labels = [0, 0], train_positions = [0, 2], test_positions = [1, 3]\<rparr>"
    by (simp add: train_test_split_def quiet_table_def example_library_def take_rows_def upt_rec [of _ 4])
  then show ?thesis
    by (simp add: pca_split_cell_def assms Let_def)
qed

lemma skipped_shap_cell:
  "\<not> EXPLAINABILITY_AVAILABLE s \<Longrightarrow>
   shap_cell lib s = Inr (s\<lparr>stdout := stdout s @ [''SHAP analysis skipped because libraries are not installed.'']\<rparr>)"
  by (simp add: shap_cell_def emit_def)

lemma skipped_lime_cell:
  "\<not> EXPLAINABILITY_AVAILABLE s \<Longrightarrow>
   lime_cell lib s = Inr (s\<lparr>stdout := stdout s @ [''LIME analysis skipped because libraries are not installed.'']\<rparr>)"
  by (simp add: lime_cell_def emit_def)

lemma example_save_cell:
  "best_model s = Some 1 \<Longrightarrow> top_features s = [''nadas'', ''announcements''] \<Longrightarrow>
   save_cell example_library s =
     Inr (s\<lparr>files := (files s)(dump_path \<mapsto> ''m'',
               to_csv_path \<mapsto> ''Feature'' @ [CHR 0x0A] @ ''nadas'' @ [CHR 0x0A] @ ''announcements'' @ [CHR 0x0A]),
            stdout := stdout s @ [model_message, features_message]\<rparr>)"
  by (simp add: save_cell_def emit_def Let_def example_library_def)

lemma example_joblib:
  "joblib_dumps example_library m = replicate (nat \<lfloor>m\<rfloor>) (CHR ''m'')"
  "joblib_loads example_library b = Inr (real (length b))"
  by (simp_all add: example_library_def)

lemma example_read_csv:
  "read_csv_Feature example_library
     (''Feature'' @ [CHR 0x0A] @ ''nadas'' @ [CHR 0x0A] @ ''announcements'' @ [CHR 0x0A])
   = Inr [Text ''nadas'', Text ''announcements'']"
  by (simp add: read_csv_Feature_def infer_column_def na_values_def example_library_def)

lemma example_load_cell:
  "files s load_path = Some ''m'' \<Longrightarrow>
   files s read_csv_path = Some (''Feature'' @ [CHR 0x0A] @ ''nadas'' @ [CHR 0x0A] @ ''announcements'' @ [CHR 0x0A]) \<Longrightarrow>
   load_cell example_library s =
     Inr (s\<lparr>loaded_model := Some 1,
            selected_features := [Text ''nadas'', Text ''announcements''],
            stdout := stdout s @ [''Model and feature list loaded successfully.'']\<rparr>)"
  using example_read_csv by (simp add: load_cell_def emit_def example_joblib)

lemma quiet_run:
  "\<exists>u. run_notebook example_library without_explainers (fresh_notebook quiet_table) = Inr u
       \<and> dom (files u) = {dump_path, to_csv_path}
       \<and> loaded_model u = Some 1
       \<and> selected_features u = [Text ''nadas'', Text ''announcements'']
       \<and> top_features u = [''nadas'', ''announcements'']
       \<and> train_index u = [0, 2] \<and> train_index_pca u = [0, 2]
       \<and> stdout u =
           [''Warning: SHAP and/or LIME libraries not installed. Explainability sections will be skipped.'',
            ''Run 'pip install shap lime' to install them.'',
            ''SHAP analysis skipped because libraries are not installed.'',
            ''LIME analysis skipped because libraries are not installed.'',
            model_message, features_message,
            ''Model and feature list loaded successfully.'']"
  unfolding run_notebook_def
  by (simp add: quiet_imports_cell quiet_feature_analysis_cell quiet_select_cell quiet_split_cell
      example_grid_search_cell quiet_predict_cell quiet_metrics_cell quiet_pca_cell
      quiet_pca_split_cell skipped_shap_cell skipped_lime_cell example_save_cell
      example_load_cell path_facts fresh_notebook_def insert_commute)

theorem persisted_paths_witness:
  "(\<exists>t. save_cell example_library ((fresh_notebook quiet_table)\<lparr>best_model := Some 1\<rparr>) = Inr t
        \<and> files t load_path = Some ''m''
        \<and> stdout t = [model_message, features_message])
   \<and> (\<exists>u. run_notebook example_library without_explainers (fresh_notebook quiet_table) = Inr u
        \<and> dom (files u) = {dump_path, to_csv_path}
        \<and> ''bgp_anomaly_svm_model.pkl'' \<notin> dom (files u))"
proof -
  note facts = persisted_paths [of example_library]
  let ?s = "(fresh_notebook quiet_table :: real notebook)\<lparr>best_model := Some 1\<rparr>"
  have "\<forall>s m. best_model s = Some m \<longrightarrow>
         (\<exists>t. save_cell example_library s = Inr t
            \<and> stdout t = stdout s @ [model_message, features_message]
            \<and> files t load_path = Some (joblib_dumps example_library m)
            \<and> files t read_csv_path = Some (to_csv example_library (top_features s))
            \<and> dom (files t) = dom (files s) \<union> {dump_path, to_csv_path}
            \<and> outcome loaded (load_cell example_library t) =
                (case joblib_loads example_library (joblib_dumps example_library m) of
                   Inl e \<Rightarrow> Inl e
                 | Inr m' \<Rightarrow>
                     (case read_csv_Feature example_library (to_csv example_library (top_features s)) of
                        Inl e \<Rightarrow> Inl e
                      | Inr fs \<Rightarrow> Inr (Some m', fs))))"
    using facts by (elim conjE)
  moreover have "best_model ?s = Some 1"
    by simp
  ultimately obtain t where t: "save_cell example_library ?s = Inr t"
    "stdout t = stdout ?s @ [model_message, features_message]"
    "files t load_path = Some (joblib_dumps example_library 1)"
    by blast
  have first: "\<exists>t. save_cell example_library ?s = Inr t
        \<and> files t load_path = Some ''m'' \<and> stdout t = [model_message, features_message]"
    using t by (simp add: example_library_def fresh_notebook_def)
  have all_runs: "\<forall>e s0 u. run_notebook example_library e s0 = Inr u \<longrightarrow>
         dom (files u) = dom (files s0) \<union> {dump_path, to_csv_path}"
    using facts by (elim conjE)
  obtain u where u: "run_notebook example_library without_explainers (fresh_notebook quiet_table) = Inr u"
    using quiet_run by blast
  have "dom (files u) = dom (files (fresh_notebook quiet_table :: real notebook)) \<union> {dump_path, to_csv_path}"
    using all_runs u by blast
  then have "dom (files u) = {dump_path, to_csv_path}"
    by (simp add: fresh_notebook_def)
  then have "\<exists>u. run_notebook example_library without_explainers (fresh_notebook quiet_table) = Inr u
        \<and> dom (files u) = {dump_path, to_csv_path}
        \<and> ''bgp_anomaly_svm_model.pkl'' \<notin> dom (files u)"
    using u path_facts by auto
  then show ?thesis
    using first by blast
qed

theorem explainer_skipped_when_unavailable_witness:
  "(\<exists>t. imports_cell without_explainers (fresh_notebook quiet_table :: real notebook) = Inr t
        \<and> \<not> EXPLAINABILITY_AVAILABLE t)
   \<and> run_cells [shap_cell example_library, lime_cell example_library] (fresh_notebook quiet_table) =
        Inr ((fresh_notebook quiet_table)\<lparr>stdout :=
              [''SHAP analysis skipped because libraries are not installed.'',
               ''LIME analysis skipped because libraries are not installed.'']\<rparr>)
   \<and> (\<exists>u. run_notebook example_library without_explainers (fresh_notebook quiet_table) = Inr u
         \<and> outcome silenced
              (run_cells [imports_cell without_explainers, feature_analysis_cell example_library, select_cell,
                 split_cell example_library, grid_search_cell example_library,
                 predict_cell example_library, metrics_cell, pca_cell example_library,
                 pca_split_cell example_library, save_cell example_library,
                 load_cell example_library] (fresh_notebook quiet_table))
            = Inr (silenced u))"
proof -
  have unavailable: "\<not> (shap_installed without_explainers \<and> lime_installed without_explainers)"
    by (simp add: without_explainers_def)
  note facts = explainer_skipped_when_unavailable
    [OF unavailable, of "fresh_notebook quiet_table :: real notebook" example_library]
  have first: "\<exists>t. imports_cell without_explainers (fresh_notebook quiet_table :: real notebook) = Inr t
        \<and> \<not> EXPLAINABILITY_AVAILABLE t"
    using facts by blast
  have "\<forall>u :: real notebook. \<not> EXPLAINABILITY_AVAILABLE u \<longrightarrow>
             run_cells [shap_cell example_library, lime_cell example_library] u =
               Inr (u\<lparr>stdout := stdout u @
                     [''SHAP analysis skipped because libraries are not installed.'',
                      ''LIME analysis skipped because libraries are not installed.'']\<rparr>)"
    using facts by (elim conjE)
  moreover have "\<not> EXPLAINABILITY_AVAILABLE (fresh_notebook quiet_table :: real notebook)"
    by (simp add: fresh_notebook_def)
  ultimately have "run_cells [shap_cell example_library, lime_cell example_library]
      (fresh_notebook quiet_table :: real notebook) =
        Inr ((fresh_notebook quiet_table)\<lparr>stdout := stdout (fresh_notebook quiet_table :: real notebook) @
              [''SHAP analysis skipped because libraries are not installed.'',
               ''LIME analysis skipped because libraries are not installed.'']\<rparr>)"
    by blast
  then have second: "run_cells [shap_cell example_library, lime_cell example_library]
      (fresh_notebook quiet_table) =
        Inr ((fresh_notebook quiet_table)\<lparr>stdout :=
              [''SHAP analysis skipped because libraries are not installed.'',
               ''LIME analysis skipped because libraries are not installed.'']\<rparr>)"
    by (simp add: fresh_notebook_def del: run_cells.simps)
  have same: "outcome silenced (run_notebook example_library without_explainers (fresh_notebook quiet_table))
           = outcome silenced
              (run_cells [imports_cell without_explainers, feature_analysis_cell example_library, select_cell,
                 split_cell example_library, grid_search_cell example_library,
                 predict_cell example_library, metrics_cell, pca_cell example_library,
                 pca_split_cell example_library, save_cell example_library,
                 load_cell example_library] (fresh_notebook quiet_table))"
    using facts by (elim conjE)
  obtain u where u: "run_notebook example_library without_explainers (fresh_notebook quiet_table) = Inr u"
    using quiet_run by blast
  have third: "\<exists>u. run_notebook example_library without_explainers (fresh_notebook quiet_table) = Inr u
         \<and> outcome silenced
              (run_cells [imports_cell without_explainers, feature_analysis_cell example_library, select_cell,
                 split_cell example_library, grid_search_cell example_library,
                 predict_cell example_library, metrics_cell, pca_cell example_library,
                 pca_split_cell example_library, save_cell example_library,
                 load_cell example_library] (fresh_notebook quiet_table))
            = Inr (silenced u)"
    using same u by (intro exI [of _ u]) (simp del: run_cells.simps)
  show ?thesis
    using first second third by (intro conjI)
qed

lemma selected_state_split:
  "split_cell example_library selected_state =
     Inr (selected_state\<lparr>X_train := [[3, 6], [5, 12]], X_test := [[2, 2], [0, 4]],
            y_train := [1, 1], y_test := [0, 0], train_index := [0, 2], test_index := [1, 3]\<rparr>)"
  by (rule quiet_split_cell) (simp_all add: selected_state_def fresh_notebook_def)

theorem pca_split_same_partition_witness:
  "\<exists>s1 s2 s3. split_cell example_library selected_state = Inr s1
      \<and> run_cells [grid_search_cell example_library, predict_cell example_library, metrics_cell,
           pca_cell example_library] s1 = Inr s2
      \<and> pca_split_cell example_library s2 = Inr s3
      \<and> train_index s1 = [0, 2] \<and> train_index_pca s3 = [0, 2]
      \<and> test_index s1 = [1, 3] \<and> test_index_pca s3 = [1, 3]
      \<and> X_pca s2 = [[3, 6], [2, 2], [5, 12], [0, 4]] \<and> X_train_pca s3 = [[3, 6], [5, 12]]"
proof -
  let ?s1 = "selected_state\<lparr>X_train := [[3, 6], [5, 12]], X_test := [[2, 2], [0, 4]],
            y_train := [1, 1], y_test := [0, 0], train_index := [0, 2], test_index := [1, 3]\<rparr>"
  have contract: "\<forall>X X' ts seed strat. length X = length X' \<longrightarrow>
      split_indices example_library X ts seed strat = split_indices example_library X' ts seed strat"
    by (simp add: example_library_def)
  have between: "\<exists>s2. run_cells [grid_search_cell example_library, predict_cell example_library,
      metrics_cell, pca_cell example_library] ?s1 = Inr s2 \<and> X_pca s2 = [[3, 6], [2, 2], [5, 12], [0, 4]]"
    by (simp add: example_grid_search_cell quiet_predict_cell quiet_metrics_cell quiet_pca_cell
        selected_state_def fresh_notebook_def)
  then obtain s2 where s2: "run_cells [grid_search_cell example_library, predict_cell example_library,
      metrics_cell, pca_cell example_library] ?s1 = Inr s2" "X_pca s2 = [[3, 6], [2, 2], [5, 12], [0, 4]]"
    by blast
  from pca_split_same_partition [OF contract selected_state_split s2(1)]
  obtain s3 where s3: "pca_split_cell example_library s2 = Inr s3"
    "train_index_pca s3 = train_index ?s1" "test_index_pca s3 = test_index ?s1"
    "take_rows (X_pca s2) (train_index ?s1) = Inr (X_train_pca s3)"
    by blast
  have "train_index_pca s3 = [0, 2]" "test_index_pca s3 = [1, 3]" "X_train_pca s3 = [[3, 6], [5, 12]]"
    using s3 s2(2) by (simp_all add: take_rows_def)
  then show ?thesis
    using selected_state_split s2 s3(1)
    by (intro exI [of _ ?s1] exI [of _ s2] exI [of _ s3]) (simp del: run_cells.simps)
qed

theorem model_trainer_witness:
  "(\<exists>s1 r. split_cell example_library selected_state = Inr s1
       \<and> train_test_split example_library
            (rows_of (X_selected selected_state) (length (y_labels (df selected_state))))
            (y_labels (df selected_state)) (3 / 10) 42 (y_labels (df selected_state)) = Inr r
       \<and> train_rows r = [[3, 6], [5, 12]] \<and> test_labels r = [0, 0])
   \<and> (\<exists>t p. grid_search_cell example_library selected_state = Inr t
       \<and> best_params t = Some p \<and> p \<in> set param_grid \<and> svm_kernel p = Linear)
   \<and> outcome searched (grid_search_cell example_library selected_state)
       = outcome searched (grid_search_cell example_library (selected_state\<lparr>X_test := [[1, 1]]\<rparr>))"
proof -
  note facts = model_trainer [where lib = example_library]
  note split_all = facts [THEN conjunct2, THEN conjunct2, THEN conjunct2, THEN conjunct1, rule_format]
  note search_all = facts [THEN conjunct2, THEN conjunct2, THEN conjunct2, THEN conjunct2,
    THEN conjunct1, rule_format]
  note indep_all = facts [THEN conjunct2, THEN conjunct2, THEN conjunct2, THEN conjunct2,
    THEN conjunct2, rule_format]
  let ?s1 = "selected_state\<lparr>X_train := [[3, 6], [5, 12]], X_test := [[2, 2], [0, 4]],
            y_train := [1, 1], y_test := [0, 0], train_index := [0, 2], test_index := [1, 3]\<rparr>"
  from split_all [OF selected_state_split] obtain r where r:
    "train_test_split example_library
       (rows_of (X_selected selected_state) (length (y_labels (df selected_state))))
       (y_labels (df selected_state)) (3 / 10) 42 (y_labels (df selected_state)) = Inr r"
    "X_train ?s1 = train_rows r" "y_test ?s1 = test_labels r"
    by blast
  have "train_rows r = [[3, 6], [5, 12]]" "test_labels r = [0, 0]"
    using r(2,3) by simp_all
  then have first: "\<exists>s1 r. split_cell example_library selected_state = Inr s1
       \<and> train_test_split example_library
            (rows_of (X_selected selected_state) (length (y_labels (df selected_state))))
            (y_labels (df selected_state)) (3 / 10) 42 (y_labels (df selected_state)) = Inr r
       \<and> train_rows r = [[3, 6], [5, 12]] \<and> test_labels r = [0, 0]"
    using selected_state_split r(1) by blast
  let ?t = "selected_state\<lparr>best_params := Some \<lparr>svm_C = 1, svm_gamma = Scale, svm_kernel = Linear\<rparr>,
            best_model := Some 1\<rparr>"
  have t: "grid_search_cell example_library selected_state = Inr ?t"
    by (rule example_grid_search_cell)
  from search_all [OF t] obtain p where p: "best_params ?t = Some p" "p \<in> set param_grid"
    by blast
  have "svm_kernel p = Linear"
    using p(1) by auto
  then have second: "\<exists>t p. grid_search_cell example_library selected_state = Inr t
       \<and> best_params t = Some p \<and> p \<in> set param_grid \<and> svm_kernel p = Linear"
    using t p by blast
  have third: "outcome searched (grid_search_cell example_library selected_state)
       = outcome searched (grid_search_cell example_library (selected_state\<lparr>X_test := [[1, 1]]\<rparr>))"
    by (rule indep_all) simp
  show ?thesis
    using first second third by (intro conjI)
qed

section \<open>The round trip through the two files\<close>








section \<open>The selector as cells of the notebook\<close>

lemma selector_cells:
  "run_cells [feature_analysis_cell lib, select_cell] s =
     (case X_selected_of lib (df s) of
        Inl e \<Rightarrow> Inl e
      | Inr cols \<Rightarrow>
          Inr (s\<lparr>feature_diff_df := feature_diff_df_of lib (df s),
                 top_features := top_features_of lib (df s), X_selected := cols\<rparr>))"
  by (cases "select_columns (X_columns (df s)) (map fst (head_rows 15 (feature_diff_df_of lib (df s))))")
     (simp_all add: feature_analysis_cell_def select_cell_def X_selected_of_def top_features_of_def
        Let_def)

lemma selector_outcome:
  "outcome selection (run_cells [feature_analysis_cell lib, select_cell] s) =
     (case X_selected_of lib (df s) of
        Inl e \<Rightarrow> Inl e
      | Inr cols \<Rightarrow> Inr (feature_diff_df_of lib (df s), top_features_of lib (df s), cols))"
  unfolding selector_cells by (simp add: selection_def split: sum.splits)

lemma feature_diffs_same_sum:
  assumes "series_sum lib' = series_sum lib"
  shows "feature_diffs_of lib' d = feature_diffs_of lib d"
proof -
  have same: "column_diff lib' = column_diff lib"
    by (intro ext) (simp add: column_diff_def anomaly_mean_of_def mean_def assms)
  show ?thesis
    unfolding feature_diffs_of_def same by (rule refl)
qed

lemma sort_key_same_mset:
  assumes "mset xs = mset ys" and "distinct (map f ys)"
  shows "sort_key f xs = sort_key f ys"
proof -
  have "mset xs = mset (sort_key f ys)"
    using assms(1) by simp
  moreover have "inj_on f (set xs)"
    using assms by (metis distinct_map mset_eq_setD)
  ultimately show ?thesis
    by (rule sort_key_inj_key_eq) simp
qed

lemma sort_values_no_ties:
  assumes "no_ties rows"
  shows "sort_values_abs_desc lib' rows = sort_values_abs_desc lib rows"
proof -
  let ?non = "filter (\<lambda>row. abs_fval (snd row) \<noteq> NaN) rows"
  let ?keys = "map (\<lambda>row. abs_fval (snd row)) ?non"
  have "sort_key abs_rank (rev (arrange (tie_order lib' ?keys) ?non))
      = sort_key abs_rank ?non"
    using assms by (intro sort_key_same_mset) (simp_all add: mset_arrange no_ties_def)
  moreover have "sort_key abs_rank (rev (arrange (tie_order lib ?keys) ?non))
      = sort_key abs_rank ?non"
    using assms by (intro sort_key_same_mset) (simp_all add: mset_arrange no_ties_def)
  ultimately show ?thesis
    by (simp add: sort_values_abs_desc_def Let_def)
qed

lemma feature_diff_df_same:
  assumes "series_sum lib' = series_sum lib"
    and "tie_order lib' = tie_order lib \<or> no_ties (feature_diffs_of lib d)"
  shows "feature_diff_df_of lib' d = feature_diff_df_of lib d"
proof -
  have "sort_values_abs_desc lib' (feature_diffs_of lib d)
      = sort_values_abs_desc lib (feature_diffs_of lib d)"
    using assms(2) sort_values_no_ties [of "feature_diffs_of lib d" lib' lib]
    by (auto simp add: sort_values_abs_desc_def)
  then show ?thesis
    by (simp add: feature_diff_df_of_def feature_diffs_same_sum [OF assms(1)])
qed

text \<open>
  Claim C5. The selector consults nothing but the table, the floating-point sum of a
  series and the order in which the sort visits rows of equal key. Two runs on the same
  table in which these two routines answer alike end with the same ranked table, the same
  ordered list of selected names and the same selected columns (or raise the same error),
  whatever else the notebook holds and whatever every other library routine does. When no
  two shifts have the same absolute value the order of ties plays no part either. Running
  the selector a second time after the first reproduces the result of the first run.
\<close>

theorem selection_repeatable:
  fixes s :: "'m notebook" and s' :: "'n notebook"
    and lib :: "'m library" and lib' :: "'n library" and again :: "'m library"
  assumes "df s' = df s"
    and "series_sum lib' = series_sum lib" and "series_sum again = series_sum lib"
    and "tie_order lib' = tie_order lib \<or> no_ties (feature_diffs_of lib (df s))"
    and "tie_order again = tie_order lib \<or> no_ties (feature_diffs_of lib (df s))"
  shows "outcome selection (run_cells [feature_analysis_cell lib', select_cell] s')
           = outcome selection (run_cells [feature_analysis_cell lib, select_cell] s)
       \<and> outcome selection
            (run_cells [feature_analysis_cell lib, select_cell,
                        feature_analysis_cell again, select_cell] s)
           = outcome selection (run_cells [feature_analysis_cell lib, select_cell] s)"
proof -
  have same: "feature_diff_df_of lib' (df s) = feature_diff_df_of lib (df s)"
    using assms(2,4) by (rule feature_diff_df_same)
  have same_again: "feature_diff_df_of again (df s) = feature_diff_df_of lib (df s)"
    using assms(3,5) by (rule feature_diff_df_same)
  have other: "outcome selection (run_cells [feature_analysis_cell lib', select_cell] s')
      = outcome selection (run_cells [feature_analysis_cell lib, select_cell] s)"
    unfolding selector_outcome assms(1)
    by (simp add: X_selected_of_def top_features_of_def same split: sum.split)
  have twice: "run_cells ([feature_analysis_cell lib, select_cell]
        @ [feature_analysis_cell again, select_cell]) s
      = (case run_cells [feature_analysis_cell lib, select_cell] s of
           Inl e \<Rightarrow> Inl e
         | Inr t \<Rightarrow> run_cells [feature_analysis_cell again, select_cell] t)"
    by (rule run_cells_append)
  have second: "outcome selection (run_cells ([feature_analysis_cell lib, select_cell]
        @ [feature_analysis_cell again, select_cell]) s)
      = outcome selection (run_cells [feature_analysis_cell lib, select_cell] s)"
    unfolding twice selector_cells
    by (cases "X_selected_of lib (df s)")
       (simp_all add: selection_def X_selected_of_def top_features_of_def same_again)
  show ?thesis
    using other second by (simp del: run_cells.simps)
qed

theorem selection_repeatable_witness:
  "outcome selection
     (run_cells [feature_analysis_cell (example_library\<lparr>tie_order := \<lambda>keys. [0..<length keys]\<rparr>),
                 select_cell]
        ((fresh_notebook example_table :: real notebook)\<lparr>stdout := [''Class distribution:'']\<rparr>))
   = outcome selection
       (run_cells [feature_analysis_cell example_library, select_cell]
          (fresh_notebook example_table :: real notebook))
   \<and> outcome top_features
       (run_cells [feature_analysis_cell example_library, select_cell,
                   feature_analysis_cell example_library, select_cell]
          (fresh_notebook example_table :: real notebook))
     = Inr [''nadas'', ''announcements'', ''flaps'']"
proof -
  let ?s = "fresh_notebook example_table :: real notebook"
  let ?s' = "?s\<lparr>stdout := [''Class distribution:'']\<rparr>"
  let ?lib' = "example_library\<lparr>tie_order := \<lambda>keys. [0..<length keys]\<rparr>"
  have table: "df ?s = example_table"
    by (simp add: fresh_notebook_def)
  have h1: "df ?s' = df ?s"
    by simp
  have h2: "series_sum ?lib' = series_sum example_library"
    by simp
  have h3: "series_sum example_library = series_sum example_library"
    by simp
  have distinct: "no_ties (feature_diffs_of example_library (df ?s))"
    unfolding table by (simp add: no_ties_def example_feature_diffs abs_rank_def)
  have h4: "tie_order ?lib' = tie_order example_library
      \<or> no_ties (feature_diffs_of example_library (df ?s))"
    using distinct by simp
  have h5: "tie_order example_library = tie_order example_library
      \<or> no_ties (feature_diffs_of example_library (df ?s))"
    by simp
  have sel: "X_selected_of example_library example_table =
      Inr [(''nadas'', [0, 0, 5, 3]), (''announcements'', [2, 4, 6, 12]), (''flaps'', [1, 1, 1, 1])]"
    by (simp add: X_selected_of_def top_features_of_def example_feature_diff_df head_rows_def)
       (simp add: example_table_def)
  have top: "outcome selection (run_cells [feature_analysis_cell example_library, select_cell] ?s)
      = Inr ([(''nadas'', PosInf), (''announcements'', Num 2), (''flaps'', Num 0)],
             [''nadas'', ''announcements'', ''flaps''],
             [(''nadas'', [0, 0, 5, 3]), (''announcements'', [2, 4, 6, 12]), (''flaps'', [1, 1, 1, 1])])"
    unfolding selector_outcome table
    by (simp add: sel top_features_of_def example_feature_diff_df head_rows_def)
  from selection_repeatable [OF h1 h2 h3 h4 h5]
  have both: "outcome selection (run_cells [feature_analysis_cell ?lib', select_cell] ?s')
        = outcome selection (run_cells [feature_analysis_cell example_library, select_cell] ?s)"
    "outcome selection
       (run_cells [feature_analysis_cell example_library, select_cell,
                   feature_analysis_cell example_library, select_cell] ?s)
        = outcome selection (run_cells [feature_analysis_cell example_library, select_cell] ?s)"
    by blast+
  have "outcome top_features
       (run_cells [feature_analysis_cell example_library, select_cell,
                   feature_analysis_cell example_library, select_cell] ?s)
     = Inr [''nadas'', ''announcements'', ''flaps'']"
    using both(2) [unfolded top]
    by (cases "run_cells [feature_analysis_cell example_library, select_cell,
                   feature_analysis_cell example_library, select_cell] ?s")
       (simp_all add: selection_def del: run_cells.simps)
  then show ?thesis
    using both(1) by (simp del: run_cells.simps)
qed

text \<open>
  Among equal shifts the order is the library's: on a table with two tied features, a
  sort that visits the rows from the last to the first and one that visits them from the
  first to the last select the same names in opposite orders.
\<close>

lemma tied_table_order:
  "top_features_of example_library tied_table = [''updates'', ''withdrawals'']"
  "top_features_of (example_library\<lparr>tie_order := \<lambda>keys. [0..<length keys]\<rparr>) tied_table
     = [''withdrawals'', ''updates'']"
proof -
  have wf: "wf_dataset tied_table"
    by (simp add: wf_dataset_def tied_table_def)
  have diffs: "feature_diffs_of example_library tied_table
      = [(''withdrawals'', Num 1), (''updates'', Num 1)]"
    by (simp add: feature_diffs_map [OF wf])
       (simp add: tied_table_def column_diff_def mean_def anomaly_mean_of_def rows_where_def
          feature_diff_def example_series_sum float_eval)
  have diffs': "feature_diffs_of (example_library\<lparr>tie_order := \<lambda>keys. [0..<length keys]\<rparr>) tied_table
      = [(''withdrawals'', Num 1), (''updates'', Num 1)]"
    using feature_diffs_same_sum [of "example_library\<lparr>tie_order := \<lambda>keys. [0..<length keys]\<rparr>"
        example_library tied_table]
    by (simp add: diffs)
  show "top_features_of example_library tied_table = [''updates'', ''withdrawals'']"
    by (simp add: top_features_of_def feature_diff_df_of_def diffs sort_values_abs_desc_def
        abs_rank_def arrange_def example_tie_order head_rows_def upt_rec [of _ 2])
  show "top_features_of (example_library\<lparr>tie_order := \<lambda>keys. [0..<length keys]\<rparr>) tied_table
     = [''withdrawals'', ''updates'']"
    by (simp add: top_features_of_def feature_diff_df_of_def diffs' sort_values_abs_desc_def
        abs_rank_def arrange_def head_rows_def upt_rec [of _ 2])
qed

end
